theory Spec2Isabelle
  imports Complex_Main "HOL-Library.Char_ord" "HOL-Library.List_Lexorder" "HOL-Library.Sublist"
    "HOL-Library.AList" "HOL-Library.Monad_Syntax" "HOL-Library.Multiset"
begin

section \<open>Values shared by the registry components\<close>

text \<open>
  Python exceptions that the registry code can raise or catch. Only subclasses of
  \<open>Exception\<close> are modelled; every \<open>except Exception\<close> handler of the source catches all of
  them.
\<close>

datatype py_error =
    ValueError string | TypeError | AttributeError | KeyError | OSError | UnicodeDecodeError

text \<open>
  A Python float is modelled by the exact rational value of the double it holds, with the
  three non-finite doubles apart. The registry only compares floats with the constants
  \<open>0.0\<close>, \<open>1.0\<close> and \<open>2.0\<close>, which are exact.
\<close>

datatype pyfloat = Fin rat | PInf | NInf | NaN

fun float_le :: "pyfloat \<Rightarrow> pyfloat \<Rightarrow> bool" where
  "float_le (Fin a) (Fin b) = (a \<le> b)"
| "float_le NaN _ = False"
| "float_le _ NaN = False"
| "float_le NInf _ = True"
| "float_le _ PInf = True"
| "float_le _ _ = False"

definition float_lt :: "pyfloat \<Rightarrow> pyfloat \<Rightarrow> bool" where
  "float_lt a b = (float_le a b \<and> a \<noteq> b)"

text \<open>The values \<open>json.load\<close> produces: the content of configuration documents and of
  free-form \<open>config\<close> maps. An object keeps its keys in document order.\<close>

datatype json =
    JNull
  | JBool bool
  | JInt int
  | JFloat pyfloat
  | JStr string
  | JArr "json list"
  | JObj "(string \<times> json) list"

datatype ModelType = TASK_PARSER | PRIORITIZER | INSIGHTS

fun ModelType_value :: "ModelType \<Rightarrow> string" where
  "ModelType_value TASK_PARSER = ''task_parser''"
| "ModelType_value PRIORITIZER = ''prioritizer''"
| "ModelType_value INSIGHTS = ''insights''"

text \<open>\<open>ModelType(s)\<close>: the member with that value, \<open>ValueError\<close> otherwise.\<close>

definition ModelType_of :: "string \<Rightarrow> py_error + ModelType" where
  "ModelType_of s =
     (if s = ''task_parser'' then Inr TASK_PARSER
      else if s = ''prioritizer'' then Inr PRIORITIZER
      else if s = ''insights'' then Inr INSIGHTS
      else Inl (ValueError s))"

datatype ModelStatus = AVAILABLE | LOADING | ERROR | DEPRECATED

type_synonym datetime = int

subsection \<open>ModelMetadata (metadata.py)\<close>

record ModelMetadata =
  name :: string
  version :: string
  model_type :: ModelType
  description :: "string option"
  file_path :: string
  file_size_bytes :: int
  file_hash :: string
  model_source :: string
  model_id :: "string option"
  memory_requirement_mb :: int
  inference_time_ms :: "int option"
  accuracy_score :: "pyfloat option"
  created_at :: datetime
  updated_at :: datetime
  status :: ModelStatus
  dependencies :: "string list"
  python_version :: "string option"
  framework_version :: "string option"
  config :: "(string \<times> json) list"

text \<open>The two validators of \<open>ModelMetadata\<close>. Each returns its argument or raises
  \<open>ValueError\<close>.\<close>

definition validate_accuracy_score :: "pyfloat option \<Rightarrow> py_error + pyfloat option" where
  "validate_accuracy_score v =
     (case v of
        None \<Rightarrow> Inr v
      | Some x \<Rightarrow>
          if float_lt x (Fin 0) \<or> float_lt (Fin 1) x
          then Inl (ValueError ''Accuracy score must be between 0.0 and 1.0'')
          else Inr v)"

definition validate_file_hash :: "string \<Rightarrow> py_error + string" where
  "validate_file_hash v =
     (if length v \<noteq> 64
      then Inl (ValueError ''File hash must be a valid SHA-256 hash'')
      else Inr v)"

text \<open>
  Construction of a \<open>ModelMetadata\<close> from field values that already have their declared
  types: the validators run in field order (\<open>file_hash\<close> is declared before
  \<open>accuracy_score\<close>), and the first one that raises aborts the construction.
\<close>

definition ModelMetadata_new :: "ModelMetadata \<Rightarrow> py_error + ModelMetadata" where
  "ModelMetadata_new m =
     (case validate_file_hash (file_hash m) of
        Inl e \<Rightarrow> Inl e
      | Inr h \<Rightarrow>
          (case validate_accuracy_score (accuracy_score m) of
             Inl e \<Rightarrow> Inl e
           | Inr a \<Rightarrow> Inr (m\<lparr>file_hash := h, accuracy_score := a\<rparr>)))"

subsection \<open>Decimal text of integers\<close>

fun str_nat :: "nat \<Rightarrow> string" where
  "str_nat n =
     (if n < 10 then [''0123456789'' ! n]
      else str_nat (n div 10) @ [''0123456789'' ! (n mod 10)])"

declare str_nat.simps [simp del]

definition str_int :: "int \<Rightarrow> string" where
  "str_int i = (if i < 0 then CHR ''-'' # str_nat (nat (- i)) else str_nat (nat i))"

section \<open>The Version Manager (version_manager.py)\<close>

subsection \<open>The disk and the manager's cache\<close>

text \<open>The summary that the registry index keeps for one \<open>name:version\<close> key.\<close>

record registry_entry =
  re_name :: string
  re_version :: string
  re_status :: ModelStatus
  re_created_at :: datetime
  re_updated_at :: datetime
  re_file_path :: string
  re_memory_requirement_mb :: int

text \<open>The \<open>models\<close> dictionary of a registry file: a Python dict keeps insertion order, and
  an assignment to a key that exists replaces the value where it stands (\<open>AList.update\<close>).\<close>

type_synonym registry = "(string \<times> registry_entry) list"

subsection \<open>Library code taken as parameters\<close>

text \<open>
  What the registry calls but does not define: the SHA-256 digest of \<open>hashlib\<close>, the JSON
  encoder (of a JSON value, of a metadata document and of a registry document) and decoder
  (its result is the value, or on the left the text of the error it raises), the type
  coercion that pydantic applies to a field before the validators of the
  source run, the text of an operating-system error, Python's \<open>repr\<close> of a float, the size
  \<open>os.path.getsize\<close> reports for a directory, the clock behind \<open>datetime.now()\<close> (its value
  at the n-th reading), and the setting \<open>cache_size\<close> that bounds the memoisation
  tables. Every theorem below holds for all of them.
\<close>

record library =
  sha256_hexdigest :: "string \<Rightarrow> string"
  json_dumps :: "json \<Rightarrow> string"
  json_loads :: "string \<Rightarrow> string + json"
  metadata_dumps :: "ModelMetadata \<Rightarrow> string"
  registry_dumps :: "registry \<Rightarrow> string"
  as_str :: "json \<Rightarrow> string option"
  as_int :: "json \<Rightarrow> int option"
  as_float :: "json \<Rightarrow> pyfloat option"
  as_bool :: "json \<Rightarrow> bool option"
  as_dict :: "json \<Rightarrow> (string \<times> json) list option"
  float_repr :: "pyfloat \<Rightarrow> string"
  strerror :: "string \<Rightarrow> string"
  dir_size :: nat
  now_at :: "nat \<Rightarrow> datetime"
  settings_cache_size :: nat

text \<open>
  A file is read by the registry as one of four things: a metadata document (the field
  values that \<open>json.load\<close>, the conversion of the two timestamps and \<open>cls(**data)\<close> find in
  it, before the validators run), a registry document, another JSON document, text that is
  no JSON (\<open>Bytes\<close>), or bytes that do not decode as text (\<open>Binary\<close>).
\<close>

datatype content =
    MetadataDoc ModelMetadata
  | RegistryDoc registry
  | JsonDoc json
  | Bytes string
  | Binary string

text \<open>
  The state that the Version Manager reads and writes: the files and directories of the
  disk by path, the paths on which opening for reading (\<open>unreadable\<close>) or creating and
  opening for writing (\<open>unwritable\<close>) raises \<open>OSError\<close>, the paths on which every system
  call, \<open>stat\<close> included, fails with an error other than the absence of the file
  (\<open>unsearchable\<close>: a component longer than the file system allows, a directory that may
  not be searched), the manager's base path and its in-process metadata cache, and the
  number of clock readings so far. Paths are joined with a slash, as
  \<open>base / type / name / version\<close> reads.
\<close>

record vm =
  models_base_path :: string
  files :: "string \<rightharpoonup> content"
  dirs :: "string set"
  unreadable :: "string \<Rightarrow> bool"
  unwritable :: "string \<Rightarrow> bool"
  unsearchable :: "string \<Rightarrow> bool"
  metadata_cache :: "string \<rightharpoonup> ModelMetadata"
  ticks :: nat

definition now :: "library \<Rightarrow> vm \<Rightarrow> datetime \<times> vm" where
  "now L s = (now_at L (ticks s), s\<lparr>ticks := Suc (ticks s)\<rparr>)"

text \<open>The bytes of a file, for its size and its digest.\<close>

fun content_bytes :: "library \<Rightarrow> content \<Rightarrow> string" where
  "content_bytes L (Bytes b) = b"
| "content_bytes L (JsonDoc j) = json_dumps L j"
| "content_bytes L (MetadataDoc m) = metadata_dumps L m"
| "content_bytes L (RegistryDoc r) = registry_dumps L r"
| "content_bytes L (Binary b) = b"

text \<open>\<open>os.path.exists\<close>: a failure of \<open>stat\<close> counts as absence.\<close>

definition path_exists :: "vm \<Rightarrow> string \<Rightarrow> bool" where
  "path_exists s p = (\<not> unsearchable s p \<and> (p \<in> dom (files s) \<or> p \<in> dirs s))"

text \<open>\<open>Path.exists\<close> of \<open>pathlib\<close>: only the absence of the file is turned into \<open>False\<close>; any
  other failure of \<open>stat\<close> is raised as \<open>OSError\<close>.\<close>

definition Path_exists :: "vm \<Rightarrow> string \<Rightarrow> py_error + bool" where
  "Path_exists s p =
     (if unsearchable s p then Inl OSError else Inr (p \<in> dom (files s) \<or> p \<in> dirs s))"

text \<open>\<open>os.path.getsize\<close>, which the registry calls only on a path that \<open>os.path.exists\<close> has
  just found.\<close>

definition getsize :: "library \<Rightarrow> vm \<Rightarrow> string \<Rightarrow> nat" where
  "getsize L s p =
     (case files s p of Some c \<Rightarrow> length (content_bytes L c) | None \<Rightarrow> dir_size L)"

text \<open>\<open>mkdir(parents=True, exist_ok=True)\<close>: raises when the path cannot be created or
  names a file.\<close>

definition mkdir :: "vm \<Rightarrow> string \<Rightarrow> py_error + vm" where
  "mkdir s d =
     (if unwritable s d \<or> unsearchable s d \<or> d \<in> dom (files s) then Inl OSError
      else Inr (s\<lparr>dirs := insert d (dirs s)\<rparr>))"

text \<open>\<open>open(path, 'w')\<close> followed by \<open>json.dump\<close>: raises when the directory of the path does
  not exist, when the path names a directory, or when the path cannot be written.\<close>

definition write_file :: "vm \<Rightarrow> string \<Rightarrow> string \<Rightarrow> content \<Rightarrow> py_error + vm" where
  "write_file s d p c =
     (if d \<notin> dirs s \<or> p \<in> dirs s \<or> unwritable s p \<or> unsearchable s p then Inl OSError
      else Inr (s\<lparr>files := (files s)(p \<mapsto> c)\<rparr>))"

text \<open>\<open>open(path, 'r')\<close> and reading all of it.\<close>

definition read_file :: "vm \<Rightarrow> string \<Rightarrow> py_error + content" where
  "read_file s p =
     (case files s p of
        None \<Rightarrow> Inl OSError
      | Some c \<Rightarrow> if unreadable s p \<or> unsearchable s p then Inl OSError else Inr c)"

subsection \<open>Paths and keys\<close>

definition type_directory :: "vm \<Rightarrow> ModelType \<Rightarrow> string" where
  "type_directory s t = models_base_path s @ ''/'' @ ModelType_value t"

definition get_model_directory :: "vm \<Rightarrow> ModelType \<Rightarrow> string \<Rightarrow> string \<Rightarrow> string" where
  "get_model_directory s t n v = type_directory s t @ ''/'' @ n @ ''/'' @ v"

definition get_registry_file :: "vm \<Rightarrow> ModelType \<Rightarrow> string" where
  "get_registry_file s t = type_directory s t @ ''/registry.json''"

definition metadata_file :: "vm \<Rightarrow> ModelType \<Rightarrow> string \<Rightarrow> string \<Rightarrow> string" where
  "metadata_file s t n v = get_model_directory s t n v @ ''/metadata.json''"

text \<open>The key \<open>f"{name}:{version}"\<close> of the registry index and of the metadata cache.\<close>

definition name_version_key :: "string \<Rightarrow> string \<Rightarrow> string" where
  "name_version_key n v = n @ '':'' @ v"

text \<open>
  \<open>_load_registry\<close> followed by the subscript \<open>["models"]\<close> that every caller applies. Only
  \<open>FileNotFoundError\<close> and \<open>JSONDecodeError\<close> are caught: a missing file and a text that is no
  JSON give the empty registry; any other failure to open the file propagates, bytes that
  do not decode as text raise \<open>UnicodeDecodeError\<close>, and a JSON document of another shape
  raises at the subscript.
\<close>

definition load_registry :: "vm \<Rightarrow> ModelType \<Rightarrow> py_error + registry" where
  "load_registry s t =
     (let p = get_registry_file s t in
      if p \<in> dirs s \<or> unsearchable s p then Inl OSError
      else
        (case files s p of
           None \<Rightarrow> Inr []
         | Some c \<Rightarrow>
             if unreadable s p then Inl OSError
             else
               (case c of
                  RegistryDoc r \<Rightarrow> Inr r
                | Bytes b \<Rightarrow> Inr []
                | Binary b \<Rightarrow> Inl UnicodeDecodeError
                | MetadataDoc m \<Rightarrow> Inl KeyError
                | JsonDoc j \<Rightarrow> Inl KeyError)))"

subsection \<open>Construction of the manager\<close>

text \<open>One round of \<open>_initialize_directory_structure\<close>: the type's directory, and an empty
  registry file when none exists.\<close>

definition init_type_directory :: "vm \<Rightarrow> ModelType \<Rightarrow> py_error + vm" where
  "init_type_directory s t =
     (case mkdir s (type_directory s t) of
        Inl e \<Rightarrow> Inl e
      | Inr s1 \<Rightarrow>
          (case Path_exists s1 (get_registry_file s1 t) of
             Inl e \<Rightarrow> Inl e
           | Inr True \<Rightarrow> Inr s1
           | Inr False \<Rightarrow>
               write_file s1 (type_directory s1 t) (get_registry_file s1 t) (RegistryDoc [])))"

text \<open>\<open>ModelVersionManager(models_base_path)\<close> on a given disk: the base directory, the three
  type directories in the order of the enumeration, then an empty cache.\<close>

definition ModelVersionManager_init :: "vm \<Rightarrow> string \<Rightarrow> py_error + vm" where
  "ModelVersionManager_init disk base =
     (case mkdir (disk\<lparr>models_base_path := base\<rparr>) base of
        Inl e \<Rightarrow> Inl e
      | Inr s1 \<Rightarrow>
          (case init_type_directory s1 TASK_PARSER of
             Inl e \<Rightarrow> Inl e
           | Inr s2 \<Rightarrow>
               (case init_type_directory s2 PRIORITIZER of
                  Inl e \<Rightarrow> Inl e
                | Inr s3 \<Rightarrow>
                    (case init_type_directory s3 INSIGHTS of
                       Inl e \<Rightarrow> Inl e
                     | Inr s4 \<Rightarrow> Inr (s4\<lparr>metadata_cache := Map.empty\<rparr>)))))"

subsection \<open>Registration and lookup\<close>

definition registry_entry_of :: "ModelMetadata \<Rightarrow> registry_entry" where
  "registry_entry_of m =
     \<lparr>re_name = name m, re_version = version m, re_status = status m,
      re_created_at = created_at m, re_updated_at = updated_at m,
      re_file_path = file_path m, re_memory_requirement_mb = memory_requirement_mb m\<rparr>"

text \<open>
  \<open>register_model\<close>. Every step is inside one \<open>try\<close>: the first step that raises ends the
  call with \<open>False\<close>, and what the earlier steps wrote stays on the disk.
\<close>

definition register_model :: "vm \<Rightarrow> ModelMetadata \<Rightarrow> bool \<times> vm" where
  "register_model s m =
     (let model_dir = get_model_directory s (model_type m) (name m) (version m) in
      case mkdir s model_dir of
        Inl e \<Rightarrow> (False, s)
      | Inr s1 \<Rightarrow>
          (case write_file s1 model_dir (model_dir @ ''/metadata.json'') (MetadataDoc m) of
             Inl e \<Rightarrow> (False, s1)
           | Inr s2 \<Rightarrow>
               (case load_registry s2 (model_type m) of
                  Inl e \<Rightarrow> (False, s2)
                | Inr reg \<Rightarrow>
                    (let model_key = name_version_key (name m) (version m) in
                     case write_file s2 (type_directory s2 (model_type m))
                            (get_registry_file s2 (model_type m))
                            (RegistryDoc (AList.update model_key (registry_entry_of m) reg)) of
                       Inl e \<Rightarrow> (False, s2)
                     | Inr s3 \<Rightarrow>
                         (True, s3\<lparr>metadata_cache := (metadata_cache s3)(model_key \<mapsto> m)\<rparr>)))))"

text \<open>
  \<open>get_model_metadata\<close>: the cache is consulted first, under the key \<open>name:version\<close>; on a
  miss the metadata file of that type, name and version is read, validated and cached.
  The test \<open>metadata_file.exists()\<close> stands before the \<open>try\<close>, so its \<open>OSError\<close> leaves the
  function; any failure to read or validate after it gives \<open>None\<close>.
\<close>

definition get_model_metadata ::
  "vm \<Rightarrow> ModelType \<Rightarrow> string \<Rightarrow> string \<Rightarrow> py_error + (ModelMetadata option \<times> vm)" where
  "get_model_metadata s t n v =
     (let model_key = name_version_key n v in
      case metadata_cache s model_key of
        Some m \<Rightarrow> Inr (Some m, s)
      | None \<Rightarrow>
          (let p = metadata_file s t n v in
           case Path_exists s p of
             Inl e \<Rightarrow> Inl e
           | Inr False \<Rightarrow> Inr (None, s)
           | Inr True \<Rightarrow>
               (case read_file s p of
                  Inl e \<Rightarrow> Inr (None, s)
                | Inr (MetadataDoc d) \<Rightarrow>
                    (case ModelMetadata_new d of
                       Inl e \<Rightarrow> Inr (None, s)
                     | Inr m \<Rightarrow>
                         Inr (Some m, s\<lparr>metadata_cache := (metadata_cache s)(model_key \<mapsto> m)\<rparr>))
                | Inr c \<Rightarrow> Inr (None, s))))"

subsection \<open>Listing versions\<close>

text \<open>\<open>model_key.split(":", 1)\<close> unpacked into two names: the text before the first colon and
  the text after it; the unpacking raises \<open>ValueError\<close> when the key has no colon.\<close>

definition split_key :: "string \<Rightarrow> py_error + (string \<times> string)" where
  "split_key k =
     (if CHR '':'' \<in> set k
      then Inr (takeWhile (\<lambda>c. c \<noteq> CHR '':'') k, tl (dropWhile (\<lambda>c. c \<noteq> CHR '':'') k))
      else Inl (ValueError ''not enough values to unpack''))"

text \<open>The loop of \<open>list_versions\<close> over the registry's keys, with the list built so far.\<close>

fun collect_versions :: "string \<Rightarrow> string list \<Rightarrow> string list \<Rightarrow> py_error + string list" where
  "collect_versions n [] versions = Inr versions"
| "collect_versions n (k # ks) versions =
     (case split_key k of
        Inl e \<Rightarrow> Inl e
      | Inr (model_name, v) \<Rightarrow>
          collect_versions n ks (if model_name = n then versions @ [v] else versions))"

text \<open>\<open>sorted(versions, reverse=True)\<close> on strings: descending in the lexicographic order of
  the characters.\<close>

definition sorted_reverse :: "string list \<Rightarrow> string list" where
  "sorted_reverse vs = rev (sort vs)"

definition list_versions :: "vm \<Rightarrow> ModelType \<Rightarrow> string \<Rightarrow> py_error + string list" where
  "list_versions s t n =
     (case load_registry s t of
        Inl e \<Rightarrow> Inl e
      | Inr reg \<Rightarrow>
          (case collect_versions n (map fst reg) [] of
             Inl e \<Rightarrow> Inl e
           | Inr versions \<Rightarrow> Inr (sorted_reverse versions)))"

definition get_latest_version :: "vm \<Rightarrow> ModelType \<Rightarrow> string \<Rightarrow> py_error + string option" where
  "get_latest_version s t n =
     (case list_versions s t n of
        Inl e \<Rightarrow> Inl e
      | Inr [] \<Rightarrow> Inr None
      | Inr (v # vs) \<Rightarrow> Inr (Some v))"

text \<open>
  The versions that the registry index records for a name, in the order of the index, and
  the shape of the index entries that \<open>register_model\<close> writes for names without a colon:
  the key is \<open>name:version\<close>.
\<close>

definition registered_versions :: "registry \<Rightarrow> string \<Rightarrow> string list" where
  "registered_versions reg n = map (re_version \<circ> snd) (filter (\<lambda>(k, e). re_name e = n) reg)"

definition registry_keys_ok :: "registry \<Rightarrow> bool" where
  "registry_keys_ok reg =
     list_all (\<lambda>(k, e). k = name_version_key (re_name e) (re_version e)
                        \<and> CHR '':'' \<notin> set (re_name e)) reg"

section \<open>Concrete instances for evaluation\<close>

text \<open>
  A library instance, an empty writable disk, the manager constructed on it with the base
  path \<open>models\<close>, and a metadata object for a three-byte artifact file.
\<close>

definition example_library :: library where
  "example_library =
     \<lparr>sha256_hexdigest = (\<lambda>b. replicate 64 (if b = ''abc'' then CHR ''a'' else CHR ''0'')),
      json_dumps = (\<lambda>j. ''{}''),
      json_loads = (\<lambda>x. if x = ''[1, 2]'' then Inr (JArr [JInt 1, JInt 2])
                         else if x = ''7'' then Inr (JInt 7)
                         else Inl ''Expecting value''),
      metadata_dumps = (\<lambda>m. ''{}''),
      registry_dumps = (\<lambda>r. ''{}''),
      as_str = (\<lambda>j. case j of JStr x \<Rightarrow> Some x | _ \<Rightarrow> None),
      as_int = (\<lambda>j. case j of JInt i \<Rightarrow> Some i | _ \<Rightarrow> None),
      as_float = (\<lambda>j. case j of JFloat f \<Rightarrow> Some f | JInt i \<Rightarrow> Some (Fin (of_int i)) | _ \<Rightarrow> None),
      as_bool = (\<lambda>j. case j of JBool b \<Rightarrow> Some b | _ \<Rightarrow> None),
      as_dict = (\<lambda>j. case j of JObj d \<Rightarrow> Some d | _ \<Rightarrow> None),
      float_repr = (\<lambda>f. ''nan''),
      strerror = (\<lambda>p. ''Permission denied''),
      dir_size = 4096,
      now_at = (\<lambda>n. int n),
      settings_cache_size = 100\<rparr>"

definition empty_disk :: vm where
  "empty_disk =
     \<lparr>models_base_path = [], files = Map.empty, dirs = {},
      unreadable = (\<lambda>p. False), unwritable = (\<lambda>p. False), unsearchable = (\<lambda>p. False),
      metadata_cache = Map.empty, ticks = 0\<rparr>"

definition example_vm :: vm where
  "example_vm =
     (case ModelVersionManager_init empty_disk ''models'' of Inr s \<Rightarrow> s | Inl e \<Rightarrow> empty_disk)"

definition example_metadata :: "ModelType \<Rightarrow> string \<Rightarrow> string \<Rightarrow> ModelMetadata" where
  "example_metadata t n v =
     \<lparr>name = n, version = v, model_type = t, description = None,
      file_path = ''/data/model.bin'', file_size_bytes = 3,
      file_hash = replicate 64 (CHR ''a''), model_source = ''local'', model_id = None,
      memory_requirement_mb = 128, inference_time_ms = None, accuracy_score = None,
      created_at = 0, updated_at = 0, status = AVAILABLE, dependencies = [],
      python_version = None, framework_version = None, config = []\<rparr>"

definition three_versions :: vm where
  "three_versions =
     snd (register_model (snd (register_model (snd (register_model example_vm
       (example_metadata TASK_PARSER ''default'' ''v10'')))
       (example_metadata TASK_PARSER ''default'' ''v1'')))
       (example_metadata TASK_PARSER ''default'' ''v2''))"

definition colon_name :: vm where
  "colon_name = snd (register_model example_vm (example_metadata TASK_PARSER ''a:b'' ''v1''))"

section \<open>Status, integrity and configuration (version_manager.py, metadata.py)\<close>

text \<open>
  \<open>update_model_status\<close>. The metadata object that \<open>get_model_metadata\<close> returns is the
  object the cache holds under the key, and the two assignments mutate it in place: the
  cache shows the new status from then on, whether or not the writes that follow succeed.
  The whole body is inside one \<open>try\<close> that returns \<open>False\<close>.
\<close>

definition update_model_status ::
  "library \<Rightarrow> vm \<Rightarrow> ModelType \<Rightarrow> string \<Rightarrow> string \<Rightarrow> ModelStatus \<Rightarrow> bool \<times> vm" where
  "update_model_status L s t n v st =
     (case get_model_metadata s t n v of
        Inl e \<Rightarrow> (False, s)
      | Inr (None, s1) \<Rightarrow> (False, s1)
      | Inr (Some m, s1) \<Rightarrow>
          (let (ts, s2) = now L s1;
               m' = m\<lparr>status := st, updated_at := ts\<rparr>;
               model_key = name_version_key n v;
               s3 = s2\<lparr>metadata_cache := (metadata_cache s2)(model_key \<mapsto> m')\<rparr>
           in
           case write_file s3 (get_model_directory s3 t n v) (metadata_file s3 t n v)
                  (MetadataDoc m') of
             Inl e \<Rightarrow> (False, s3)
           | Inr s4 \<Rightarrow>
               (case load_registry s4 t of
                  Inl e \<Rightarrow> (False, s4)
                | Inr reg \<Rightarrow>
                    (case map_of reg model_key of
                       None \<Rightarrow> (True, s4)
                     | Some entry \<Rightarrow>
                         (case write_file s4 (type_directory s4 t) (get_registry_file s4 t)
                                 (RegistryDoc (AList.update model_key
                                    (entry\<lparr>re_status := st, re_updated_at := ts\<rparr>) reg)) of
                            Inl e \<Rightarrow> (False, s4)
                          | Inr s5 \<Rightarrow> (True, s5))))))"

text \<open>
  \<open>calculate_file_hash\<close>: the digest of the file's bytes, or the message of the
  \<open>ValueError\<close> it raises (on the left) when the file cannot be opened.
\<close>

definition calculate_file_hash :: "library \<Rightarrow> vm \<Rightarrow> string \<Rightarrow> string + string" where
  "calculate_file_hash L s p =
     (case files s p of
        None \<Rightarrow>
          if p \<in> dirs s \<or> unsearchable s p
          then Inl (''Error calculating hash for '' @ p @ '': '' @ strerror L p)
          else Inl (''File not found: '' @ p)
      | Some c \<Rightarrow>
          if unreadable s p \<or> unsearchable s p
          then Inl (''Error calculating hash for '' @ p @ '': '' @ strerror L p)
          else Inr (sha256_hexdigest L (content_bytes L c)))"

text \<open>
  \<open>validate_model_integrity\<close>: the pair of the verdict and its message; the lookup of the
  metadata is not inside any \<open>try\<close>, so what it raises leaves the function.
\<close>

definition validate_model_integrity ::
  "library \<Rightarrow> vm \<Rightarrow> ModelType \<Rightarrow> string \<Rightarrow> string \<Rightarrow> py_error + ((bool \<times> string) \<times> vm)" where
  "validate_model_integrity L s t n v =
     (case get_model_metadata s t n v of
        Inl e \<Rightarrow> Inl e
      | Inr (None, s1) \<Rightarrow> Inr ((False, ''Model metadata not found''), s1)
      | Inr (Some m, s1) \<Rightarrow>
          if \<not> path_exists s1 (file_path m)
          then Inr ((False, ''Model file not found: '' @ file_path m), s1)
          else
            (let current_size = int (getsize L s1 (file_path m)) in
             if current_size \<noteq> file_size_bytes m
             then Inr ((False, ''File size mismatch: expected '' @ str_int (file_size_bytes m)
                                 @ '', got '' @ str_int current_size), s1)
             else
               (case calculate_file_hash L s1 (file_path m) of
                  Inl msg \<Rightarrow> Inr ((False, ''Error calculating hash: '' @ msg), s1)
                | Inr current_hash \<Rightarrow>
                    if current_hash \<noteq> file_hash m
                    then Inr ((False, ''File hash mismatch: expected '' @ file_hash m
                                        @ '', got '' @ current_hash), s1)
                    else Inr ((True, ''Model integrity validated''), s1))))"

subsection \<open>ModelConfig\<close>

record ModelConfig =
  mc_model_type :: ModelType
  mc_name :: string
  mc_version :: string
  mc_device :: string
  mc_precision :: string
  mc_max_memory_mb :: "int option"
  mc_max_length :: int
  mc_temperature :: pyfloat
  mc_top_p :: pyfloat
  mc_top_k :: int
  mc_cache_enabled :: bool
  mc_cache_size :: int
  mc_cache_ttl_seconds :: int
  mc_batch_size :: int
  mc_timeout_seconds :: int
  mc_custom_params :: "(string \<times> json) list"

text \<open>The two validators of \<open>ModelConfig\<close>: \<open>None\<close> stands for the \<open>ValueError\<close>.\<close>

definition validate_temperature :: "pyfloat \<Rightarrow> pyfloat option" where
  "validate_temperature v =
     (if float_le v (Fin 0) \<or> float_lt (Fin 2) v then None else Some v)"

definition validate_top_p :: "pyfloat \<Rightarrow> pyfloat option" where
  "validate_top_p v =
     (if float_le v (Fin 0) \<or> float_lt (Fin 1) v then None else Some v)"

text \<open>A field of a pydantic model that has a default: the default when the key is absent
  (validators do not run on it), the coerced value otherwise.\<close>

definition field_or :: "'a \<Rightarrow> (json \<Rightarrow> 'a option) \<Rightarrow> (string \<times> json) list \<Rightarrow> string \<Rightarrow> 'a option" where
  "field_or d coerce kw k = (case map_of kw k of None \<Rightarrow> Some d | Some j \<Rightarrow> coerce j)"

definition required_field :: "(json \<Rightarrow> 'a option) \<Rightarrow> (string \<times> json) list \<Rightarrow> string \<Rightarrow> 'a option" where
  "required_field coerce kw k = (case map_of kw k of None \<Rightarrow> None | Some j \<Rightarrow> coerce j)"

definition as_model_type :: "json \<Rightarrow> ModelType option" where
  "as_model_type j =
     (case j of
        JStr x \<Rightarrow> (case ModelType_of x of Inr t \<Rightarrow> Some t | Inl e \<Rightarrow> None)
      | _ \<Rightarrow> None)"

definition as_optional :: "(json \<Rightarrow> 'a option) \<Rightarrow> json \<Rightarrow> 'a option option" where
  "as_optional coerce j = (case j of JNull \<Rightarrow> Some None | _ \<Rightarrow> map_option Some (coerce j))"

text \<open>The doubles that the literals \<open>0.7\<close> and \<open>0.9\<close> denote.\<close>

definition float_0_7 :: pyfloat where
  "float_0_7 = Fin (3152519739159347 / 4503599627370496)"

definition float_0_9 :: pyfloat where
  "float_0_9 = Fin (8106479329266893 / 9007199254740992)"

text \<open>
  \<open>ModelConfig(**kw)\<close>: every field is coerced to its declared type, the two validated
  fields then pass their validators, keys that name no field are ignored, and any failure
  is the \<open>ValidationError\<close> (\<open>None\<close> here).
\<close>

definition ModelConfig_new :: "library \<Rightarrow> (string \<times> json) list \<Rightarrow> ModelConfig option" where
  "ModelConfig_new L kw =
     do {
       t \<leftarrow> required_field as_model_type kw ''model_type'';
       n \<leftarrow> required_field (as_str L) kw ''name'';
       v \<leftarrow> required_field (as_str L) kw ''version'';
       device \<leftarrow> field_or ''cpu'' (as_str L) kw ''device'';
       precision \<leftarrow> field_or ''float32'' (as_str L) kw ''precision'';
       max_memory_mb \<leftarrow> field_or None (as_optional (as_int L)) kw ''max_memory_mb'';
       max_length \<leftarrow> field_or 512 (as_int L) kw ''max_length'';
       temperature \<leftarrow>
         field_or float_0_7 (\<lambda>j. Option.bind (as_float L j) validate_temperature) kw ''temperature'';
       top_p \<leftarrow> field_or float_0_9 (\<lambda>j. Option.bind (as_float L j) validate_top_p) kw ''top_p'';
       top_k \<leftarrow> field_or 50 (as_int L) kw ''top_k'';
       cache_enabled \<leftarrow> field_or True (as_bool L) kw ''cache_enabled'';
       cache_size \<leftarrow> field_or 100 (as_int L) kw ''cache_size'';
       cache_ttl_seconds \<leftarrow> field_or 3600 (as_int L) kw ''cache_ttl_seconds'';
       batch_size \<leftarrow> field_or 1 (as_int L) kw ''batch_size'';
       timeout_seconds \<leftarrow> field_or 30 (as_int L) kw ''timeout_seconds'';
       custom_params \<leftarrow> field_or [] (as_dict L) kw ''custom_params'';
       Some \<lparr>mc_model_type = t, mc_name = n, mc_version = v, mc_device = device,
             mc_precision = precision, mc_max_memory_mb = max_memory_mb,
             mc_max_length = max_length, mc_temperature = temperature, mc_top_p = top_p,
             mc_top_k = top_k, mc_cache_enabled = cache_enabled, mc_cache_size = cache_size,
             mc_cache_ttl_seconds = cache_ttl_seconds, mc_batch_size = batch_size,
             mc_timeout_seconds = timeout_seconds, mc_custom_params = custom_params\<rparr>
     }"

text \<open>\<open>d.update(other)\<close> on dictionaries: each key of \<open>other\<close> in turn.\<close>

definition dict_update :: "(string \<times> json) list \<Rightarrow> (string \<times> json) list \<Rightarrow> (string \<times> json) list" where
  "dict_update d other = fold (\<lambda>(k, x) acc. AList.update k x acc) other d"

text \<open>
  \<open>get_model_config\<close>: the identity fields first, then the stored \<open>config\<close> map merged over
  them when it is not empty; a configuration that cannot be constructed gives \<open>None\<close>.
  The lookup of the metadata stands outside the \<open>try\<close>.
\<close>

definition get_model_config ::
  "library \<Rightarrow> vm \<Rightarrow> ModelType \<Rightarrow> string \<Rightarrow> string \<Rightarrow> py_error + (ModelConfig option \<times> vm)" where
  "get_model_config L s t n v =
     (case get_model_metadata s t n v of
        Inl e \<Rightarrow> Inl e
      | Inr (None, s1) \<Rightarrow> Inr (None, s1)
      | Inr (Some m, s1) \<Rightarrow>
          (let config_data =
                 [(''model_type'', JStr (ModelType_value t)), (''name'', JStr n),
                  (''version'', JStr v)];
               config_data' =
                 (if config m \<noteq> [] then dict_update config_data (config m) else config_data)
           in Inr (ModelConfig_new L config_data', s1)))"

section \<open>The Lifecycle Manager (model_manager.py)\<close>

text \<open>
  The in-memory record of a loaded model. The source keeps in it a reference to the cached
  metadata object, whose \<open>status\<close> and \<open>updated_at\<close> later status updates mutate; the record
  here holds the field values at the time of the fetch, and no operation of the manager
  reads those two fields from a loaded record.
\<close>

record loaded_model =
  lm_name :: string
  lm_version :: string
  lm_type :: string
  lm_loaded_at :: datetime
  lm_metadata :: ModelMetadata
  lm_config :: ModelConfig
  lm_status :: string

text \<open>What the manager hands to the telemetry sink, in order. The sink never raises.\<close>

datatype telemetry_event =
    SetActiveModels nat
  | SetModelMemoryUsage string string int
  | RecordModelInference string string int string

text \<open>
  The manager: its Version Manager (with the disk), the tables of loaded models, of their
  configurations and of their load times (dictionaries, in insertion order), the keys that
  have a loading lock, the rolling samples of inference time per key, the memoisation
  tables of the three processing entry points (most recently used first), and the
  telemetry emitted so far.
\<close>

record manager =
  version_manager :: vm
  loaded_models :: "(string \<times> loaded_model) list"
  model_configs :: "(string \<times> ModelConfig) list"
  load_times :: "(string \<times> datetime) list"
  loading_locks :: "string set"
  inference_stats :: "(string \<times> int list) list"
  parsing_cache :: "((string \<times> string \<times> string option) \<times> json) list"
  prioritization_cache :: "((string \<times> string \<times> string option) \<times> json) list"
  insights_cache :: "((string \<times> string \<times> string option) \<times> json) list"
  telemetry :: "telemetry_event list"

definition get_model_key :: "ModelType \<Rightarrow> string \<Rightarrow> string \<Rightarrow> string" where
  "get_model_key t n v = ModelType_value t @ '':'' @ n @ '':'' @ v"

definition is_model_loaded :: "manager \<Rightarrow> ModelType \<Rightarrow> string \<Rightarrow> string \<Rightarrow> bool" where
  "is_model_loaded M t n v = (map_of (loaded_models M) (get_model_key t n v) \<noteq> None)"

text \<open>
  The handler of \<open>load_model\<close>: the status is set to \<open>ERROR\<close> (an update that returns
  \<open>False\<close> when it fails in turn) and the load returns \<open>False\<close>.
\<close>

definition load_failed ::
  "library \<Rightarrow> manager \<Rightarrow> vm \<Rightarrow> ModelType \<Rightarrow> string \<Rightarrow> string \<Rightarrow> bool \<times> manager" where
  "load_failed L M s t n v =
     (False, M\<lparr>version_manager := snd (update_model_status L s t n v ERROR)\<rparr>)"

text \<open>
  \<open>load_model\<close>. The version is resolved outside the \<open>try\<close>, so a failure of
  \<open>get_latest_version\<close> propagates. In a sequential run the lock is free and the second
  check of the table repeats the first. Inside the \<open>try\<close> the three calls that look the
  metadata up can raise, and the handler then runs.
\<close>

definition load_model ::
  "library \<Rightarrow> manager \<Rightarrow> ModelType \<Rightarrow> string \<Rightarrow> string option \<Rightarrow> py_error + (bool \<times> manager)" where
  "load_model L M t n version_arg =
     (case (case version_arg of
              Some v \<Rightarrow> Inr (Some v)
            | None \<Rightarrow> get_latest_version (version_manager M) t n) of
        Inl e \<Rightarrow> Inl e
      | Inr None \<Rightarrow> Inr (False, M)
      | Inr (Some v) \<Rightarrow>
          (let model_key = get_model_key t n v in
           if map_of (loaded_models M) model_key \<noteq> None then Inr (True, M)
           else
             (let M1 = M\<lparr>loading_locks := insert model_key (loading_locks M)\<rparr> in
              if map_of (loaded_models M1) model_key \<noteq> None then Inr (True, M1)
              else
                (case get_model_metadata (version_manager M1) t n v of
                   Inl e \<Rightarrow> Inr (load_failed L M1 (version_manager M1) t n v)
                 | Inr (None, s1) \<Rightarrow> Inr (False, M1\<lparr>version_manager := s1\<rparr>)
                 | Inr (Some metadata, s1) \<Rightarrow>
                     (case validate_model_integrity L s1 t n v of
                        Inl e \<Rightarrow> Inr (load_failed L M1 s1 t n v)
                      | Inr ((is_valid, message), s2) \<Rightarrow>
                          if \<not> is_valid
                          then Inr (False, M1\<lparr>version_manager :=
                                             snd (update_model_status L s2 t n v ERROR)\<rparr>)
                          else
                            (let s3 = snd (update_model_status L s2 t n v LOADING) in
                             case get_model_config L s3 t n v of
                               Inl e \<Rightarrow> Inr (load_failed L M1 s3 t n v)
                             | Inr (None, s4) \<Rightarrow> Inr (False, M1\<lparr>version_manager := s4\<rparr>)
                             | Inr (Some cfg, s4) \<Rightarrow>
                                 (let (t1, s5) = now L s4;
                                      mock_model =
                                        \<lparr>lm_name = n, lm_version = v,
                                         lm_type = ModelType_value t, lm_loaded_at = t1,
                                         lm_metadata = metadata, lm_config = cfg,
                                         lm_status = ''loaded''\<rparr>;
                                      (t2, s6) = now L s5;
                                      loaded' = AList.update model_key mock_model (loaded_models M1);
                                      s7 = snd (update_model_status L s6 t n v AVAILABLE)
                                  in Inr (True,
                                       M1\<lparr>version_manager := s7,
                                          loaded_models := loaded',
                                          model_configs := AList.update model_key cfg (model_configs M1),
                                          load_times := AList.update model_key t2 (load_times M1),
                                          telemetry := telemetry M1 @
                                            [SetActiveModels (length loaded'),
                                             SetModelMemoryUsage (ModelType_value t) v
                                               (memory_requirement_mb metadata * 1024 * 1024)]\<rparr>))))))))"

definition new_manager :: "vm \<Rightarrow> manager" where
  "new_manager s =
     \<lparr>version_manager = s, loaded_models = [], model_configs = [], load_times = [],
      loading_locks = {}, inference_stats = [], parsing_cache = [],
      prioritization_cache = [], insights_cache = [], telemetry = []\<rparr>"

section \<open>Concrete instances of the manager\<close>

text \<open>
  The example disk with a three-byte artifact file, version v1 of the task parser
  \<open>default\<close> registered for that file, the manager after loading it, and the same two
  managers after the bytes of the file have changed.
\<close>

definition example_disk_file :: vm where
  "example_disk_file = example_vm\<lparr>files := (files example_vm)(''/data/model.bin'' \<mapsto> Bytes ''abc'')\<rparr>"

definition example_registered :: vm where
  "example_registered =
     snd (register_model example_disk_file (example_metadata TASK_PARSER ''default'' ''v1''))"

definition mutate_file :: "manager \<Rightarrow> string \<Rightarrow> content \<Rightarrow> manager" where
  "mutate_file M p c =
     M\<lparr>version_manager := (version_manager M)\<lparr>files := (files (version_manager M))(p \<mapsto> c)\<rparr>\<rparr>"

definition example_loaded :: manager where
  "example_loaded =
     (case load_model example_library (new_manager example_registered) TASK_PARSER ''default''
             (Some ''v1'') of
        Inr (ok, M) \<Rightarrow> M
      | Inl e \<Rightarrow> new_manager example_registered)"

definition example_unloaded_mutated :: manager where
  "example_unloaded_mutated =
     mutate_file (new_manager example_registered) ''/data/model.bin'' (Bytes ''abd'')"

definition example_loaded_mutated :: manager where
  "example_loaded_mutated = mutate_file example_loaded ''/data/model.bin'' (Bytes ''abd'')"

text \<open>What a lookup returns, without the state, and the status that the Version Manager
  reports for an artifact.\<close>

definition lookup_result ::
  "py_error + (ModelMetadata option \<times> vm) \<Rightarrow> py_error + ModelMetadata option" where
  "lookup_result r = map_sum id fst r"

definition reported_status :: "vm \<Rightarrow> ModelType \<Rightarrow> string \<Rightarrow> string \<Rightarrow> ModelStatus option" where
  "reported_status s t n v =
     (case get_model_metadata s t n v of
        Inr (mo, s') \<Rightarrow> map_option status mo
      | Inl e \<Rightarrow> None)"

text \<open>The verdict and message of an integrity check, without the state.\<close>

definition integrity_result ::
  "py_error + ((bool \<times> string) \<times> vm) \<Rightarrow> py_error + (bool \<times> string)" where
  "integrity_result r = map_sum id fst r"

text \<open>The same registration with a stored configuration whose temperature is out of
  range, and the manager after an attempt to load it.\<close>

definition example_bad_config :: vm where
  "example_bad_config =
     snd (register_model example_disk_file
       ((example_metadata TASK_PARSER ''default'' ''v1'')
          \<lparr>config := [(''temperature'', JFloat (Fin 5))]\<rparr>))"

definition after_load :: "py_error + (bool \<times> manager) \<Rightarrow> manager \<Rightarrow> manager" where
  "after_load r M = (case r of Inr (ok, M') \<Rightarrow> M' | Inl e \<Rightarrow> M)"

definition load_result :: "py_error + (bool \<times> manager) \<Rightarrow> py_error + bool" where
  "load_result r = map_sum id fst r"

definition example_bad_config_attempt :: manager where
  "example_bad_config_attempt =
     after_load (load_model example_library (new_manager example_bad_config) TASK_PARSER
        ''default'' (Some ''v1'')) (new_manager example_bad_config)"

section \<open>The Config Loader (config_loader.py)\<close>

subsection \<open>Python operations on loaded JSON\<close>

text \<open>Truthiness of a loaded JSON value.\<close>

fun py_truthy :: "json \<Rightarrow> bool" where
  "py_truthy JNull = False"
| "py_truthy (JBool b) = b"
| "py_truthy (JInt i) = (i \<noteq> 0)"
| "py_truthy (JFloat f) = (f \<noteq> Fin 0)"
| "py_truthy (JStr x) = (x \<noteq> [])"
| "py_truthy (JArr xs) = (xs \<noteq> [])"
| "py_truthy (JObj kvs) = (kvs \<noteq> [])"

text \<open>
  \<open>key in x\<close> for a string \<open>key\<close>: a key of a dictionary, an element of a list, a
  substring of a string; \<open>TypeError\<close> for a number, a boolean and \<open>None\<close>.
\<close>

fun contains_str :: "string \<Rightarrow> json \<Rightarrow> py_error + bool" where
  "contains_str k (JObj kvs) = Inr (k \<in> set (map fst kvs))"
| "contains_str k (JArr xs) = Inr (JStr k \<in> set xs)"
| "contains_str k (JStr x) = Inr (sublist k x)"
| "contains_str k j = Inl TypeError"

text \<open>\<open>d.get(k, default)\<close> on a dictionary.\<close>

definition dict_get :: "(string \<times> json) list \<Rightarrow> string \<Rightarrow> json \<Rightarrow> json" where
  "dict_get d k dflt = (case map_of d k of None \<Rightarrow> dflt | Some x \<Rightarrow> x)"

text \<open>
  A loop that appends the findings of each element to the list of errors: the first
  element whose check raises ends the loop with that exception.
\<close>

fun collect_errors :: "('a \<Rightarrow> py_error + string list) \<Rightarrow> 'a list \<Rightarrow> py_error + string list" where
  "collect_errors f [] = Inr []"
| "collect_errors f (x # xs) =
     (case f x of
        Inl e \<Rightarrow> Inl e
      | Inr es \<Rightarrow>
          (case collect_errors f xs of
             Inl e \<Rightarrow> Inl e
           | Inr es' \<Rightarrow> Inr (es @ es')))"

subsection \<open>validate_config\<close>

definition validate_version_def :: "string \<Rightarrow> string \<Rightarrow> string \<times> json \<Rightarrow> py_error + string list" where
  "validate_version_def t n ver =
     (case ver of (v, version_def) \<Rightarrow>
        (case contains_str ''model_source'' version_def of
           Inl e \<Rightarrow> Inl e
         | Inr has_source \<Rightarrow>
             (case contains_str ''memory_requirement_mb'' version_def of
                Inl e \<Rightarrow> Inl e
              | Inr has_memory \<Rightarrow>
                  Inr ((if has_source then []
                        else [''Missing model_source for '' @ t @ ''/'' @ n @ '':'' @ v])
                       @ (if has_memory then []
                          else [''Missing memory_requirement_mb for '' @ t @ ''/'' @ n @ '':'' @ v])))))"

definition default_version_message :: "string \<Rightarrow> string \<Rightarrow> string \<Rightarrow> string" where
  "default_version_message dv t n =
     ''Default version '' @ [CHR 0x27] @ dv @ [CHR 0x27] @ '' not found in versions for ''
       @ t @ ''/'' @ n"

text \<open>
  The test \<open>default_version and default_version not in model_def["versions"]\<close> and the
  message it appends. In a dictionary the value is hashed first, which raises for a list
  and a dictionary; a number or \<open>True\<close> is never equal to a key, which is a string. When
  \<open>versions\<close> is a list or a string the test itself does not raise for a string, and the
  loop over \<open>versions.items()\<close> that follows then raises whatever the test found, so its
  outcome is not computed here.
\<close>

definition check_default_version ::
  "library \<Rightarrow> json \<Rightarrow> json \<Rightarrow> string \<Rightarrow> string \<Rightarrow> py_error + string list" where
  "check_default_version L dv versions t n =
     (if \<not> py_truthy dv then Inr []
      else
        (case versions of
           JObj vs \<Rightarrow>
             (case dv of
                JStr x \<Rightarrow>
                  Inr (if x \<in> set (map fst vs) then [] else [default_version_message x t n])
              | JInt i \<Rightarrow> Inr [default_version_message (str_int i) t n]
              | JBool b \<Rightarrow> Inr [default_version_message ''True'' t n]
              | JFloat f \<Rightarrow> Inr [default_version_message (float_repr L f) t n]
              | JNull \<Rightarrow> Inr []
              | JArr xs \<Rightarrow> Inl TypeError
              | JObj kvs \<Rightarrow> Inl TypeError)
         | JArr xs \<Rightarrow> Inr []
         | JStr x \<Rightarrow> (case dv of JStr y \<Rightarrow> Inr [] | _ \<Rightarrow> Inl TypeError)
         | _ \<Rightarrow> Inl TypeError))"

definition validate_model :: "library \<Rightarrow> string \<Rightarrow> string \<times> json \<Rightarrow> py_error + string list" where
  "validate_model L t model =
     (case model of (n, model_def) \<Rightarrow>
        (case contains_str ''versions'' model_def of
           Inl e \<Rightarrow> Inl e
         | Inr False \<Rightarrow> Inr [''Missing versions for '' @ t @ ''/'' @ n]
         | Inr True \<Rightarrow>
             (case contains_str ''default_version'' model_def of
                Inl e \<Rightarrow> Inl e
              | Inr has_default \<Rightarrow>
                  (case model_def of
                     JObj md \<Rightarrow>
                       (let versions = dict_get md ''versions'' JNull in
                        case check_default_version L (dict_get md ''default_version'' JNull)
                               versions t n of
                          Inl e \<Rightarrow> Inl e
                        | Inr default_errors \<Rightarrow>
                            (case versions of
                               JObj vs \<Rightarrow>
                                 (case collect_errors (validate_version_def t n) vs of
                                    Inl e \<Rightarrow> Inl e
                                  | Inr version_errors \<Rightarrow>
                                      Inr ((if has_default then []
                                            else [''Missing default_version for '' @ t @ ''/'' @ n])
                                           @ default_errors @ version_errors))
                             | _ \<Rightarrow> Inl AttributeError))
                   | _ \<Rightarrow> Inl AttributeError))))"

definition validate_model_type :: "library \<Rightarrow> string \<times> json \<Rightarrow> py_error + string list" where
  "validate_model_type L entry =
     (case entry of (t, models) \<Rightarrow>
        (case ModelType_of t of
           Inl e \<Rightarrow> Inr [''Invalid model type: '' @ t]
         | Inr mt \<Rightarrow>
             (case models of
                JObj ms \<Rightarrow> collect_errors (validate_model L t) ms
              | _ \<Rightarrow> Inl AttributeError)))"

text \<open>\<open>validate_config\<close> on the loaded document \<open>config_data\<close>: the list of errors, or the
  exception that leaves the function.\<close>

definition validate_config :: "library \<Rightarrow> json \<Rightarrow> py_error + string list" where
  "validate_config L config_data =
     (if \<not> py_truthy config_data then Inr [''No configuration data loaded'']
      else
        (case contains_str ''model_definitions'' config_data of
           Inl e \<Rightarrow> Inl e
         | Inr False \<Rightarrow> Inr [''Missing '' @ [CHR 0x27] @ ''model_definitions'' @ [CHR 0x27] @ '' section'']
         | Inr True \<Rightarrow>
             (case config_data of
                JObj doc \<Rightarrow>
                  (case dict_get doc ''model_definitions'' JNull of
                     JObj defs \<Rightarrow> collect_errors (validate_model_type L) defs
                   | _ \<Rightarrow> Inl AttributeError)
              | _ \<Rightarrow> Inl TypeError)))"

text \<open>
  A document in which every level that \<open>validate_config\<close> walks is a JSON object, and every
  \<open>default_version\<close> that is present is a string or \<open>null\<close>.
\<close>

definition is_object :: "json \<Rightarrow> bool" where
  "is_object j = (case j of JObj kvs \<Rightarrow> True | _ \<Rightarrow> False)"

definition model_def_shape :: "json \<Rightarrow> bool" where
  "model_def_shape model_def =
     (case model_def of
        JObj md \<Rightarrow>
          (case map_of md ''versions'' of
             None \<Rightarrow> ''versions'' \<notin> set (map fst md)
           | Some (JObj vs) \<Rightarrow>
               list_all (\<lambda>(v, version_def). is_object version_def) vs
               \<and> (case map_of md ''default_version'' of
                     None \<Rightarrow> True
                   | Some (JStr x) \<Rightarrow> True
                   | Some JNull \<Rightarrow> True
                   | Some other \<Rightarrow> False)
           | Some other \<Rightarrow> False)
      | _ \<Rightarrow> False)"

definition config_shape :: "json \<Rightarrow> bool" where
  "config_shape config_data =
     (case config_data of
        JObj doc \<Rightarrow>
          (case map_of doc ''model_definitions'' of
             None \<Rightarrow> ''model_definitions'' \<notin> set (map fst doc)
           | Some (JObj defs) \<Rightarrow>
               list_all (\<lambda>(t, models).
                  case models of
                    JObj ms \<Rightarrow> list_all (\<lambda>(n, model_def). model_def_shape model_def) ms
                  | _ \<Rightarrow> False) defs
           | Some other \<Rightarrow> False)
      | _ \<Rightarrow> False)"

text \<open>Three documents: a model under a key that is no model type, a model under
  \<open>task_parser\<close>, each with the default version v2 and the only version v1, and a document
  without \<open>model_definitions\<close>.\<close>

definition example_model_def :: json where
  "example_model_def =
     JObj [(''versions'',
            JObj [(''v1'', JObj [(''model_source'', JStr ''mock''),
                                 (''memory_requirement_mb'', JInt 128)])]),
           (''default_version'', JStr ''v2'')]"

definition example_config_unknown_type :: json where
  "example_config_unknown_type =
     JObj [(''model_definitions'', JObj [(''vision'', JObj [(''m'', example_model_def)])])]"

definition example_config_bad_default :: json where
  "example_config_bad_default =
     JObj [(''model_definitions'', JObj [(''task_parser'', JObj [(''m'', example_model_def)])])]"

definition example_config_no_definitions :: json where
  "example_config_no_definitions = JObj [(''global_config'', JObj [])]"

subsection \<open>Reconciliation: initialize_models_from_config\<close>

text \<open>
  \<open>create_model_metadata\<close> (metadata.py), with the arguments that callers take from a JSON
  document still as JSON: pydantic coerces them when the \<open>ModelMetadata\<close> is constructed.
  The result is the metadata or the exception raised, with the state after the clock has
  been read.
\<close>

definition create_model_metadata ::
  "library \<Rightarrow> vm \<Rightarrow> string \<Rightarrow> string \<Rightarrow> ModelType \<Rightarrow> string \<Rightarrow> json \<Rightarrow> json \<Rightarrow> json \<Rightarrow> json \<Rightarrow> json
     \<Rightarrow> (py_error + ModelMetadata) \<times> vm" where
  "create_model_metadata L s n v t fp source memory descr mid cfg =
     (if \<not> path_exists s fp then (Inl (ValueError (''Model file not found: '' @ fp)), s)
      else
        (let file_size = int (getsize L s fp) in
         case calculate_file_hash L s fp of
           Inl msg \<Rightarrow> (Inl (ValueError msg), s)
         | Inr h \<Rightarrow>
             (let (ts, s1) = now L s in
              case do {
                     source' \<leftarrow> as_str L source;
                     memory' \<leftarrow> as_int L memory;
                     descr' \<leftarrow> as_optional (as_str L) descr;
                     mid' \<leftarrow> as_optional (as_str L) mid;
                     cfg' \<leftarrow> as_dict L (if py_truthy cfg then cfg else JObj []);
                     Some \<lparr>name = n, version = v, model_type = t, description = descr',
                           file_path = fp, file_size_bytes = file_size, file_hash = h,
                           model_source = source', model_id = mid',
                           memory_requirement_mb = memory', inference_time_ms = None,
                           accuracy_score = None, created_at = ts, updated_at = ts,
                           status = AVAILABLE, dependencies = [], python_version = None,
                           framework_version = None, config = cfg'\<rparr>
                   } of
                None \<Rightarrow> (Inl (ValueError ''validation error''), s1)
              | Some m \<Rightarrow>
                  (case ModelMetadata_new m of
                     Inl e \<Rightarrow> (Inl e, s1)
                   | Inr m' \<Rightarrow> (Inr m', s1)))))"

text \<open>\<open>_create_mock_model\<close>: the placeholder file \<open>model.json\<close> in the version's directory, its
  metadata, and the registration; \<open>False\<close> as soon as a step raises.\<close>

definition create_mock_model ::
  "library \<Rightarrow> vm \<Rightarrow> ModelType \<Rightarrow> string \<Rightarrow> string \<Rightarrow> json \<Rightarrow> bool \<times> vm" where
  "create_mock_model L s t n v version_def =
     (let model_dir = get_model_directory s t n v in
      case mkdir s model_dir of
        Inl e \<Rightarrow> (False, s)
      | Inr s1 \<Rightarrow>
          (let mock_file = model_dir @ ''/model.json'';
               mock_data = JObj [(''type'', JStr ''mock_model''), (''name'', JStr n),
                                 (''version'', JStr v),
                                 (''model_type'', JStr (ModelType_value t)),
                                 (''created_at'', JStr ''2024-01-01T00:00:00'')]
           in
           case write_file s1 model_dir mock_file (JsonDoc mock_data) of
             Inl e \<Rightarrow> (False, s1)
           | Inr s2 \<Rightarrow>
               (case version_def of
                  JObj vd \<Rightarrow>
                    (case create_model_metadata L s2 n v t mock_file
                            (dict_get vd ''model_source'' (JStr ''mock''))
                            (dict_get vd ''memory_requirement_mb'' (JInt 128))
                            (dict_get vd ''description''
                               (JStr (''Mock '' @ ModelType_value t @ '' model'')))
                            JNull
                            (dict_get vd ''config'' (JObj [])) of
                       (Inl e, s3) \<Rightarrow> (False, s3)
                     | (Inr m, s3) \<Rightarrow> register_model s3 m)
                | _ \<Rightarrow> (False, s2))))"

text \<open>
  The innermost loop of \<open>initialize_models_from_config\<close>, over the versions of one model,
  with the result dictionary and the state so far. Its body is inside a \<open>try\<close> that records
  \<open>False\<close> for the key, so the loop itself never raises.
\<close>

fun initialize_versions ::
  "library \<Rightarrow> ModelType \<Rightarrow> string \<Rightarrow> string \<Rightarrow> (string \<times> json) list
     \<Rightarrow> (string \<times> bool) list \<times> vm \<Rightarrow> (string \<times> bool) list \<times> vm" where
  "initialize_versions L t ts n [] rs = rs"
| "initialize_versions L t ts n ((v, version_def) # rest) (results, s) =
     (let model_key = ts @ '':'' @ n @ '':'' @ v in
      case get_model_metadata s t n v of
        Inl e \<Rightarrow> initialize_versions L t ts n rest (AList.update model_key False results, s)
      | Inr (Some existing, s1) \<Rightarrow>
          initialize_versions L t ts n rest (AList.update model_key True results, s1)
      | Inr (None, s1) \<Rightarrow>
          (case version_def of
             JObj vd \<Rightarrow>
               if map_of vd ''model_source'' = Some (JStr ''mock'')
               then
                 (case create_mock_model L s1 t n v version_def of
                    (success, s2) \<Rightarrow>
                      initialize_versions L t ts n rest
                        (AList.update model_key success results, s2))
               else initialize_versions L t ts n rest (AList.update model_key False results, s1)
           | _ \<Rightarrow> initialize_versions L t ts n rest (AList.update model_key False results, s1)))"

text \<open>The loop over the models of one type: \<open>model_def.get\<close> and \<open>.items()\<close> stand outside
  the \<open>try\<close> and raise \<open>AttributeError\<close> on anything but a dictionary.\<close>

fun initialize_models ::
  "library \<Rightarrow> ModelType \<Rightarrow> string \<Rightarrow> (string \<times> json) list
     \<Rightarrow> (string \<times> bool) list \<times> vm \<Rightarrow> py_error + ((string \<times> bool) list \<times> vm)" where
  "initialize_models L t ts [] rs = Inr rs"
| "initialize_models L t ts ((n, model_def) # rest) rs =
     (case model_def of
        JObj md \<Rightarrow>
          (case dict_get md ''versions'' (JObj []) of
             JObj vs \<Rightarrow> initialize_models L t ts rest (initialize_versions L t ts n vs rs)
           | _ \<Rightarrow> Inl AttributeError)
      | _ \<Rightarrow> Inl AttributeError)"

text \<open>The loop over the model types: a key that is no model type is skipped.\<close>

fun initialize_types ::
  "library \<Rightarrow> (string \<times> json) list \<Rightarrow> (string \<times> bool) list \<times> vm
     \<Rightarrow> py_error + ((string \<times> bool) list \<times> vm)" where
  "initialize_types L [] rs = Inr rs"
| "initialize_types L ((ts, models) # rest) rs =
     (case ModelType_of ts of
        Inl e \<Rightarrow> initialize_types L rest rs
      | Inr t \<Rightarrow>
          (case models of
             JObj ms \<Rightarrow>
               (case initialize_models L t ts ms rs of
                  Inl e \<Rightarrow> Inl e
                | Inr rs' \<Rightarrow> initialize_types L rest rs')
           | _ \<Rightarrow> Inl AttributeError))"

definition initialize_models_from_config ::
  "library \<Rightarrow> json \<Rightarrow> vm \<Rightarrow> py_error + ((string \<times> bool) list \<times> vm)" where
  "initialize_models_from_config L config_data s =
     (case config_data of
        JObj doc \<Rightarrow>
          (case dict_get doc ''model_definitions'' (JObj []) of
             JObj defs \<Rightarrow> initialize_types L defs ([], s)
           | _ \<Rightarrow> Inl AttributeError)
      | _ \<Rightarrow> Inl AttributeError)"

text \<open>A document that declares the mock version v1 of a model \<open>default\<close> for the task
  parser and for the prioritizer, and the outcome of reconciling it on the example
  manager, where nothing is registered.\<close>

definition example_mock_model :: json where
  "example_mock_model =
     JObj [(''versions'',
            JObj [(''v1'', JObj [(''model_source'', JStr ''mock''),
                                 (''memory_requirement_mb'', JInt 128)])]),
           (''default_version'', JStr ''v1'')]"

definition example_config_two_types :: json where
  "example_config_two_types =
     JObj [(''model_definitions'',
            JObj [(''task_parser'', JObj [(''default'', example_mock_model)]),
                  (''prioritizer'', JObj [(''default'', example_mock_model)])])]"

definition reconcile_results ::
  "py_error + ((string \<times> bool) list \<times> vm) \<Rightarrow> py_error + (string \<times> bool) list" where
  "reconcile_results r = map_sum id fst r"

definition reconcile_state :: "py_error + ((string \<times> bool) list \<times> vm) \<Rightarrow> vm \<Rightarrow> vm" where
  "reconcile_state r s = (case r of Inr (results, s') \<Rightarrow> s' | Inl e \<Rightarrow> s)"

definition example_reconciled :: vm where
  "example_reconciled =
     reconcile_state (initialize_models_from_config example_library example_config_two_types
        example_vm) example_vm"

section \<open>The processing entry points (model_manager.py)\<close>













subsection \<open>process_task_parsing\<close>




subsection \<open>process_task_prioritization\<close>








subsection \<open>process_insights_generation\<close>








section \<open>A disk with a limit on the length of names\<close>

text \<open>The components of a path, and the example manager on a disk where every system
  call fails on a path that has a component of more than 255 characters.\<close>

fun split_slash :: "string \<Rightarrow> string \<Rightarrow> string list" where
  "split_slash acc [] = [rev acc]"
| "split_slash acc (c # cs) =
     (if c = CHR ''/'' then rev acc # split_slash [] cs else split_slash (c # acc) cs)"

definition name_too_long :: "string \<Rightarrow> bool" where
  "name_too_long p = list_ex (\<lambda>c. length c > 255) (split_slash [] p)"

definition example_posix_vm :: vm where
  "example_posix_vm = example_vm\<lparr>unsearchable := name_too_long\<rparr>"

section \<open>Hash validation of metadata\<close>

text \<open>
  C10. Construction of a \<open>ModelMetadata\<close> rejects a \<open>file_hash\<close> exactly when its length
  differs from 64: the validator accepts every string of 64 characters whatever they are
  (64 times the letter z, which is no hexadecimal digest, is accepted), raises
  \<open>ValueError\<close> for every other length, and a construction whose other fields are valid
  succeeds exactly when the hash has 64 characters.
\<close>

theorem file_hash_rejected_iff_length_not_64:
  "(validate_file_hash v = Inr v \<longleftrightarrow> length v = 64)
   \<and> ((\<exists>e. validate_file_hash v = Inl (ValueError e)) \<longleftrightarrow> length v \<noteq> 64)
   \<and> validate_file_hash (replicate 64 (CHR ''z'')) = Inr (replicate 64 (CHR ''z''))
   \<and> ((\<exists>m'. ModelMetadata_new (m\<lparr>file_hash := v, accuracy_score := None\<rparr>) = Inr m')
        \<longleftrightarrow> length v = 64)"
  by (simp add: validate_file_hash_def ModelMetadata_new_def validate_accuracy_score_def)

section \<open>Version ordering\<close>

lemma split_key_name_version:
  "CHR '':'' \<notin> set n \<Longrightarrow> split_key (name_version_key n v) = Inr (n, v)"
proof -
  assume c: "CHR '':'' \<notin> set n"
  then have a: "\<forall>x\<in>set n. x \<noteq> CHR '':''" by auto
  have t: "takeWhile (\<lambda>c. c \<noteq> CHR '':'') (n @ CHR '':'' # v) = n"
    using a by (simp add: takeWhile_tail)
  have d: "dropWhile (\<lambda>c. c \<noteq> CHR '':'') (n @ CHR '':'' # v) = CHR '':'' # v"
    using a by (simp add: dropWhile_append2)
  show ?thesis
    using t d by (simp add: split_key_def name_version_key_def)
qed

lemma split_key_fst_no_colon:
  "split_key k = Inr (a, b) \<Longrightarrow> CHR '':'' \<notin> set a"
  by (auto simp: split_key_def split: if_splits dest: set_takeWhileD)

lemma collect_versions_ok:
  "registry_keys_ok reg \<Longrightarrow>
   collect_versions n (map fst reg) acc = Inr (acc @ registered_versions reg n)"
proof (induction reg arbitrary: acc)
  case Nil
  then show ?case by (simp add: registered_versions_def)
next
  case (Cons p reg)
  obtain k e where p: "p = (k, e)" by (cases p)
  from Cons.prems p have k: "k = name_version_key (re_name e) (re_version e)"
    and c: "CHR '':'' \<notin> set (re_name e)" and rest: "registry_keys_ok reg"
    by (simp_all add: registry_keys_ok_def)
  show ?case
    using Cons.IH [OF rest] p k c
    by (simp add: split_key_name_version registered_versions_def)
qed

lemma sorted_reverse_props:
  "sorted_wrt (\<lambda>a b. b \<le> a) (sorted_reverse vs) \<and> mset (sorted_reverse vs) = mset vs"
  by (simp add: sorted_reverse_def sorted_wrt_rev)

lemma three_sorted: "sorted [''v1'', ''v10'', ''v2''] \<and> distinct [''v1'', ''v10'', ''v2'']"
  by code_simp

lemma sorted_reverse_three:
  assumes "set vs = {''v1'', ''v2'', ''v10''}" and "distinct vs"
  shows "sorted_reverse vs = [''v2'', ''v10'', ''v1'']"
proof -
  have "sort vs = [''v1'', ''v10'', ''v2'']"
  proof (rule sorted_distinct_set_unique)
    show "set (sort vs) = set [''v1'', ''v10'', ''v2'']" using assms(1) by auto
  qed (use assms three_sorted in simp_all)
  then show ?thesis by (simp add: sorted_reverse_def)
qed


text \<open>
  C1, as amended. When the registry index of a type holds entries as \<open>register_model\<close>
  writes them for names without a colon, then for every name \<open>list_versions\<close> returns the
  versions that the index records for that name, sorted descending in the lexicographic
  order of strings, and \<open>get_latest_version\<close> returns the first element of that list, or
  nothing when the list is empty. When the recorded versions are v1, v2 and v10, in
  whatever order the index holds them, the list is v2, v10, v1 and the latest version is
  v2.
\<close>

theorem list_versions_sorted_descending:
  assumes "load_registry s t = Inr reg" and "registry_keys_ok reg"
  shows "\<exists>vs. list_versions s t n = Inr vs
           \<and> sorted_wrt (\<lambda>a b. b \<le> a) vs
           \<and> mset vs = mset (registered_versions reg n)
           \<and> get_latest_version s t n = Inr (case vs of [] \<Rightarrow> None | v # rest \<Rightarrow> Some v)
           \<and> (set (registered_versions reg n) = {''v1'', ''v2'', ''v10''}
                 \<and> distinct (registered_versions reg n)
               \<longrightarrow> vs = [''v2'', ''v10'', ''v1'']
                   \<and> get_latest_version s t n = Inr (Some ''v2''))"
proof -
  let ?vs = "sorted_reverse (registered_versions reg n)"
  have lv: "list_versions s t n = Inr ?vs"
    using assms collect_versions_ok [OF assms(2), of n "[]"]
    by (simp add: list_versions_def)
  have latest: "get_latest_version s t n = Inr (case ?vs of [] \<Rightarrow> None | v # rest \<Rightarrow> Some v)"
    using lv by (simp add: get_latest_version_def split: list.splits)
  have three: "set (registered_versions reg n) = {''v1'', ''v2'', ''v10''}
                 \<and> distinct (registered_versions reg n)
               \<longrightarrow> ?vs = [''v2'', ''v10'', ''v1'']
                   \<and> get_latest_version s t n = Inr (Some ''v2'')"
    using latest sorted_reverse_three [of "registered_versions reg n"] by auto
  show ?thesis
    using lv latest three sorted_reverse_props [of "registered_versions reg n"] by blast
qed

theorem list_versions_sorted_descending_witness:
  "(\<exists>reg. load_registry three_versions TASK_PARSER = Inr reg \<and> registry_keys_ok reg
          \<and> set (registered_versions reg ''default'') = {''v1'', ''v2'', ''v10''})
   \<and> list_versions three_versions TASK_PARSER ''default'' = Inr [''v2'', ''v10'', ''v1'']
   \<and> get_latest_version three_versions TASK_PARSER ''default'' = Inr (Some ''v2'')"
proof -
  let ?reg = "projr (load_registry three_versions TASK_PARSER)"
  have h1: "load_registry three_versions TASK_PARSER = Inr ?reg" by code_simp
  have h2: "registry_keys_ok ?reg" by code_simp
  have h3: "set (registered_versions ?reg ''default'') = {''v1'', ''v2'', ''v10''}" by code_simp
  have h4: "distinct (registered_versions ?reg ''default'')" by code_simp
  from list_versions_sorted_descending [OF h1 h2, of "''default''"] h3 h4
  have "list_versions three_versions TASK_PARSER ''default'' = Inr [''v2'', ''v10'', ''v1'']
        \<and> get_latest_version three_versions TASK_PARSER ''default'' = Inr (Some ''v2'')"
    by auto
  then show ?thesis using h1 h2 h3 by blast
qed

text \<open>
  C1 as stated fails for a name that contains a colon: after the successful registration
  of version v1 of the name \<open>a:b\<close>, the index records v1 for \<open>a:b\<close>, yet \<open>list_versions\<close>
  returns no version for \<open>a:b\<close> and the version \<open>b:v1\<close> for the name \<open>a\<close>.
\<close>

theorem list_versions_colon_name_counterexample:
  "fst (register_model example_vm (example_metadata TASK_PARSER ''a:b'' ''v1'')) = True
   \<and> registered_versions (projr (load_registry colon_name TASK_PARSER)) ''a:b'' = [''v1'']
   \<and> list_versions colon_name TASK_PARSER ''a:b'' = Inr []
   \<and> list_versions colon_name TASK_PARSER ''a'' = Inr [''b:v1'']"
  by code_simp

section \<open>Lookup, status and the cache\<close>

lemma get_model_metadata_cached:
  "metadata_cache s (name_version_key n v) = Some m \<Longrightarrow>
   get_model_metadata s t n v = Inr (Some m, s)"
  by (simp add: get_model_metadata_def)

lemma get_model_metadata_cases:
  "get_model_metadata s t n v = Inl OSError
   \<or> get_model_metadata s t n v = Inr (None, s)
   \<or> (\<exists>m. get_model_metadata s t n v = Inr (Some m, s)
          \<and> metadata_cache s (name_version_key n v) = Some m)
   \<or> (\<exists>m. get_model_metadata s t n v
             = Inr (Some m, s\<lparr>metadata_cache := (metadata_cache s)(name_version_key n v \<mapsto> m)\<rparr>)
          \<and> metadata_cache s (name_version_key n v) = None)"
  by (simp add: get_model_metadata_def Path_exists_def Let_def
           split: option.split sum.split content.split bool.split)

lemma get_model_metadata_Some:
  assumes "get_model_metadata s t n v = Inr (Some m, s1)"
  shows "metadata_cache s1 (name_version_key n v) = Some m"
proof -
  from get_model_metadata_cases [of s t n v] assms
  consider "s1 = s" "metadata_cache s (name_version_key n v) = Some m"
    | "s1 = s\<lparr>metadata_cache := (metadata_cache s)(name_version_key n v \<mapsto> m)\<rparr>"
    by fastforce
  then show ?thesis by cases simp_all
qed

lemma get_model_metadata_state:
  assumes "get_model_metadata s t n v = Inr (r, s1)"
  shows "\<exists>c. s1 = s\<lparr>metadata_cache := c\<rparr>"
proof -
  from get_model_metadata_cases [of s t n v] assms
  consider "s1 = s"
    | m where "s1 = s\<lparr>metadata_cache := (metadata_cache s)(name_version_key n v \<mapsto> m)\<rparr>"
    by fastforce
  then show ?thesis
  proof cases
    case 1
    then show ?thesis by (intro exI [of _ "metadata_cache s"]) simp
  next
    case 2
    then show ?thesis by (intro exI) simp
  qed
qed

lemma get_model_metadata_None:
  assumes "get_model_metadata s t n v = Inr (None, s1)"
  shows "s1 = s"
  using get_model_metadata_cases [of s t n v] assms by fastforce

lemma get_model_metadata_again:
  "get_model_metadata s t n v = Inr (Some m, s1) \<Longrightarrow>
   get_model_metadata s1 t' n v = Inr (Some m, s1)"
  by (rule get_model_metadata_cached) (rule get_model_metadata_Some)

lemma get_model_metadata_disk:
  assumes "get_model_metadata s t n v = Inr (r, s1)"
  shows "files s1 = files s \<and> dirs s1 = dirs s \<and> unreadable s1 = unreadable s
         \<and> unwritable s1 = unwritable s \<and> unsearchable s1 = unsearchable s
         \<and> models_base_path s1 = models_base_path s \<and> ticks s1 = ticks s"
proof -
  from get_model_metadata_state [OF assms]
  obtain c where "s1 = s\<lparr>metadata_cache := c\<rparr>" by auto
  then show ?thesis by simp
qed

lemma write_file_cache:
  "write_file s d p c = Inr s' \<Longrightarrow> metadata_cache s' = metadata_cache s"
  by (auto simp: write_file_def split: if_splits)

lemma update_model_status_cache:
  assumes "get_model_metadata s t n v = Inr (Some m, s1)"
  shows "metadata_cache (snd (update_model_status L s t n v st)) (name_version_key n v)
         = Some (m\<lparr>status := st, updated_at := now_at L (ticks s1)\<rparr>)"
proof -
  let ?m' = "m\<lparr>status := st, updated_at := now_at L (ticks s1)\<rparr>"
  let ?s3 = "s1\<lparr>ticks := Suc (ticks s1),
                 metadata_cache := (metadata_cache s1)(name_version_key n v \<mapsto> ?m')\<rparr>"
  have c3: "metadata_cache ?s3 (name_version_key n v) = Some ?m'" by simp
  show ?thesis
  proof (cases "write_file ?s3 (get_model_directory ?s3 t n v) (metadata_file ?s3 t n v) (MetadataDoc ?m')")
    case (Inl e)
    then show ?thesis using assms c3
      by (simp add: update_model_status_def now_def Let_def)
  next
    case (Inr s4)
    note w4 = write_file_cache [OF Inr]
    show ?thesis
    proof (cases "load_registry s4 t")
      case (Inl e)
      then show ?thesis using assms Inr w4
        by (simp add: update_model_status_def now_def Let_def)
    next
      case (Inr reg)
      note reg = Inr
      show ?thesis
      proof (cases "map_of reg (name_version_key n v)")
        case None
        then show ?thesis using assms \<open>write_file ?s3 _ _ _ = Inr s4\<close> w4 reg
          by (simp add: update_model_status_def now_def Let_def)
      next
        case (Some entry)
        show ?thesis
        proof (cases "write_file s4 (type_directory s4 t) (get_registry_file s4 t)
                        (RegistryDoc (AList.update (name_version_key n v)
                           (entry\<lparr>re_status := st, re_updated_at := now_at L (ticks s1)\<rparr>) reg))")
          case (Inl e)
          then show ?thesis using assms \<open>write_file ?s3 _ _ _ = Inr s4\<close> w4 reg Some
            by (simp add: update_model_status_def now_def Let_def)
        next
          case (Inr s5)
          then show ?thesis
            using assms \<open>write_file ?s3 _ _ _ = Inr s4\<close> w4 reg Some write_file_cache [OF Inr]
            by (simp add: update_model_status_def now_def Let_def)
        qed
      qed
    qed
  qed
qed

lemma register_model_True_cache:
  "register_model s m = (True, s') \<Longrightarrow>
   metadata_cache s' (name_version_key (name m) (version m)) = Some m"
  by (auto simp: register_model_def Let_def split: sum.splits)

text \<open>
  C9. The metadata cache is keyed by \<open>name:version\<close> alone. After \<open>register_model\<close> has
  succeeded for a metadata object, \<open>get_model_metadata\<close> for the same name and version and
  any model type, the object's own or another, returns that cached object: its
  \<open>model_type\<close> is the registered one, whatever type was asked for and whatever the disk
  holds for the type asked for.
\<close>

theorem cache_key_ignores_model_type:
  assumes "register_model s m = (True, s')"
  shows "get_model_metadata s' t2 (name m) (version m) = Inr (Some m, s')"
  by (rule get_model_metadata_cached) (rule register_model_True_cache [OF assms])

theorem cache_key_ignores_model_type_witness:
  "fst (register_model example_disk_file (example_metadata TASK_PARSER ''default'' ''v1'')) = True
   \<and> \<not> path_exists example_registered (metadata_file example_registered PRIORITIZER ''default'' ''v1'')
   \<and> lookup_result (get_model_metadata example_registered PRIORITIZER ''default'' ''v1'')
       = Inr (Some (example_metadata TASK_PARSER ''default'' ''v1''))
   \<and> model_type (example_metadata TASK_PARSER ''default'' ''v1'') = TASK_PARSER"
proof -
  let ?m = "example_metadata TASK_PARSER ''default'' ''v1''"
  have ok: "fst (register_model example_disk_file ?m) = True" by code_simp
  then have r: "register_model example_disk_file ?m = (True, example_registered)"
    by (simp add: prod_eq_iff example_registered_def)
  have np: "\<not> path_exists example_registered
              (metadata_file example_registered PRIORITIZER ''default'' ''v1'')" by code_simp
  have nm: "name ?m = ''default''" "version ?m = ''v1''" "model_type ?m = TASK_PARSER"
    by (simp_all add: example_metadata_def)
  show ?thesis
    using ok np nm cache_key_ignores_model_type [OF r, of PRIORITIZER]
    by (simp add: lookup_result_def)
qed

section \<open>Integrity and loading\<close>

lemma validate_model_integrity_mutated:
  assumes gm: "get_model_metadata s t n v = Inr (Some m, s1)"
    and f: "files s (file_path m) = Some c"
    and mut: "int (length (content_bytes L c)) \<noteq> file_size_bytes m
              \<or> sha256_hexdigest L (content_bytes L c) \<noteq> file_hash m"
  shows "\<exists>msg. validate_model_integrity L s t n v = Inr ((False, msg), s1)"
proof -
  from get_model_metadata_disk [OF gm]
  have d: "files s1 = files s" "unreadable s1 = unreadable s" "unsearchable s1 = unsearchable s"
    by simp_all
  have sz: "getsize L s1 (file_path m) = length (content_bytes L c)"
    using f d by (simp add: getsize_def)
  show ?thesis
  proof (cases "path_exists s1 (file_path m)")
    case False
    then show ?thesis using gm by (simp add: validate_model_integrity_def)
  next
    case True
    note ex = True
    show ?thesis
    proof (cases "int (length (content_bytes L c)) \<noteq> file_size_bytes m")
      case True
      then show ?thesis using gm ex sz by (simp add: validate_model_integrity_def)
    next
      case False
      with mut have h: "sha256_hexdigest L (content_bytes L c) \<noteq> file_hash m" by simp
      show ?thesis
        using gm ex sz False h f d
        by (simp add: validate_model_integrity_def calculate_file_hash_def)
    qed
  qed
qed

text \<open>
  What \<open>validate_model_integrity\<close> does whenever the lookup of the metadata returns: the
  checks run in the order metadata, existence of the file, size, digest, and the result is
  false with the message of the first check that fails (a digest that cannot be computed
  counts as a failure of the last check, with its own message) and true with the success
  message when all four hold. When the lookup raises, so does the function.
\<close>

lemma validate_model_integrity_first_failure:
  "validate_model_integrity L s t n v =
     (case get_model_metadata s t n v of
        Inl e \<Rightarrow> Inl e
      | Inr (mo, s1) \<Rightarrow>
          Inr ((case mo of
                  None \<Rightarrow> (False, ''Model metadata not found'')
                | Some m \<Rightarrow>
                    if \<not> path_exists s (file_path m)
                    then (False, ''Model file not found: '' @ file_path m)
                    else if int (getsize L s (file_path m)) \<noteq> file_size_bytes m
                    then (False, ''File size mismatch: expected '' @ str_int (file_size_bytes m)
                                  @ '', got '' @ str_int (int (getsize L s (file_path m))))
                    else
                      (case calculate_file_hash L s (file_path m) of
                         Inl msg \<Rightarrow> (False, ''Error calculating hash: '' @ msg)
                       | Inr h \<Rightarrow>
                           if h \<noteq> file_hash m
                           then (False, ''File hash mismatch: expected '' @ file_hash m
                                         @ '', got '' @ h)
                           else (True, ''Model integrity validated''))), s1))"
proof (cases "get_model_metadata s t n v")
  case (Inl e)
  then show ?thesis by (simp add: validate_model_integrity_def)
next
  case (Inr r)
  obtain mo s1 where r: "r = (mo, s1)" by (cases r)
  with Inr have gm: "get_model_metadata s t n v = Inr (mo, s1)" by simp
  from get_model_metadata_disk [OF gm]
  have d: "files s1 = files s" "dirs s1 = dirs s" "unreadable s1 = unreadable s"
    "unsearchable s1 = unsearchable s" by simp_all
  have pe: "\<And>p. path_exists s1 p = path_exists s p" using d by (simp add: path_exists_def)
  have gs: "\<And>p. getsize L s1 p = getsize L s p" using d by (simp add: getsize_def)
  have ch: "\<And>p. calculate_file_hash L s1 p = calculate_file_hash L s p"
    using d by (simp add: calculate_file_hash_def split: option.split)
  show ?thesis
  proof (cases mo)
    case None
    then show ?thesis using gm by (simp add: validate_model_integrity_def)
  next
    case (Some m)
    show ?thesis
    proof (cases "calculate_file_hash L s (file_path m)")
      case (Inl msg)
      then show ?thesis using gm Some pe gs ch
        by (simp add: validate_model_integrity_def Let_def)
    next
      case (Inr h)
      then show ?thesis using gm Some pe gs ch
        by (simp add: validate_model_integrity_def Let_def)
    qed
  qed
qed

text \<open>
  C5. On a disk where a name may have at most 255 characters, for a name of 300
  characters that is not in the cache: the lookup of the metadata raises \<open>OSError\<close> at the
  existence test of the metadata file, which stands before the \<open>try\<close>, and
  \<open>validate_model_integrity\<close> raises with it instead of returning false with the message that
  the metadata was not found, which is what it returns on the same disk for a short name
  that is not registered.
\<close>

theorem validate_model_integrity_raises_on_long_name:
  "metadata_cache example_posix_vm (name_version_key (replicate 300 (CHR ''a'')) ''v1'') = None
   \<and> files example_posix_vm
         (metadata_file example_posix_vm TASK_PARSER (replicate 300 (CHR ''a'')) ''v1'') = None
   \<and> lookup_result (get_model_metadata example_posix_vm TASK_PARSER (replicate 300 (CHR ''a'')) ''v1'')
       = Inl OSError
   \<and> integrity_result (validate_model_integrity example_library example_posix_vm TASK_PARSER
         (replicate 300 (CHR ''a'')) ''v1'') = Inl OSError
   \<and> integrity_result (validate_model_integrity example_library example_posix_vm TASK_PARSER
         ''absent'' ''v1'') = Inr (False, ''Model metadata not found'')"
  by code_simp

text \<open>
  C4. When the key of a type, name and version is in the table of loaded models,
  \<open>load_model\<close> for that version returns true and leaves the whole manager as it was: the
  loaded models, the load times, the locks, the Version Manager's cache, the disk (so the
  persisted status) and the clock, which no metadata fetch or integrity check has read.
  The same holds when the version is omitted and the latest version is the loaded one.
\<close>

theorem load_model_already_loaded:
  assumes "is_model_loaded M t n v"
  shows "load_model L M t n (Some v) = Inr (True, M)
         \<and> (get_latest_version (version_manager M) t n = Inr (Some v)
              \<longrightarrow> load_model L M t n None = Inr (True, M))"
  using assms by (simp add: load_model_def is_model_loaded_def)

theorem load_model_already_loaded_witness:
  "is_model_loaded example_loaded TASK_PARSER ''default'' ''v1''
   \<and> load_model example_library example_loaded TASK_PARSER ''default'' (Some ''v1'')
       = Inr (True, example_loaded)
   \<and> get_latest_version (version_manager example_loaded) TASK_PARSER ''default'' = Inr (Some ''v1'')
   \<and> load_model example_library example_loaded TASK_PARSER ''default'' None
       = Inr (True, example_loaded)"
proof -
  have h: "is_model_loaded example_loaded TASK_PARSER ''default'' ''v1''" by code_simp
  have l: "get_latest_version (version_manager example_loaded) TASK_PARSER ''default''
           = Inr (Some ''v1'')" by code_simp
  show ?thesis
    using h l load_model_already_loaded [OF h, of example_library] by simp
qed

text \<open>
  C2, as amended. For an artifact that is not loaded, whose metadata the Version Manager
  resolves and whose file exists with bytes that differ in size or in digest from what the
  metadata records: \<open>validate_model_integrity\<close> reports failure, \<open>load_model\<close> returns false,
  the table of loaded models is unchanged, and the status that the Version Manager then
  reports for the artifact is \<open>ERROR\<close>.
\<close>

theorem mutated_artifact_fails_to_load:
  assumes nl: "\<not> is_model_loaded M t n v"
    and gm: "get_model_metadata (version_manager M) t n v = Inr (Some m, s1)"
    and f: "files (version_manager M) (file_path m) = Some c"
    and mut: "int (length (content_bytes L c)) \<noteq> file_size_bytes m
              \<or> sha256_hexdigest L (content_bytes L c) \<noteq> file_hash m"
  shows "(\<exists>msg. integrity_result (validate_model_integrity L (version_manager M) t n v)
                 = Inr (False, msg))
         \<and> (\<exists>M'. load_model L M t n (Some v) = Inr (False, M')
                 \<and> loaded_models M' = loaded_models M
                 \<and> \<not> is_model_loaded M' t n v
                 \<and> reported_status (version_manager M') t n v = Some ERROR)"
proof -
  from validate_model_integrity_mutated [OF gm f mut]
  have v0: "\<exists>msg. integrity_result (validate_model_integrity L (version_manager M) t n v)
                  = Inr (False, msg)"
    by (auto simp: integrity_result_def)
  have gm1: "get_model_metadata s1 t n v = Inr (Some m, s1)"
    by (rule get_model_metadata_again [OF gm])
  from get_model_metadata_disk [OF gm] f have f1: "files s1 (file_path m) = Some c" by simp
  from validate_model_integrity_mutated [OF gm1 f1 mut]
  obtain msg where v1: "validate_model_integrity L s1 t n v = Inr ((False, msg), s1)" by blast
  let ?s3 = "snd (update_model_status L s1 t n v ERROR)"
  let ?M' = "M\<lparr>loading_locks := insert (get_model_key t n v) (loading_locks M),
                version_manager := ?s3\<rparr>"
  have ld: "load_model L M t n (Some v) = Inr (False, ?M')"
    using nl gm v1 by (simp add: load_model_def is_model_loaded_def Let_def)
  have c: "metadata_cache ?s3 (name_version_key n v)
           = Some (m\<lparr>status := ERROR, updated_at := now_at L (ticks s1)\<rparr>)"
    by (rule update_model_status_cache [OF gm1])
  have st: "reported_status (version_manager ?M') t n v = Some ERROR"
    using get_model_metadata_cached [OF c, of t] by (simp add: reported_status_def)
  have "loaded_models ?M' = loaded_models M \<and> \<not> is_model_loaded ?M' t n v"
    using nl by (simp add: is_model_loaded_def)
  with ld st v0 show ?thesis by blast
qed

theorem mutated_artifact_fails_to_load_witness:
  "\<not> is_model_loaded example_unloaded_mutated TASK_PARSER ''default'' ''v1''
   \<and> lookup_result (get_model_metadata (version_manager example_unloaded_mutated) TASK_PARSER
         ''default'' ''v1'')
       = Inr (Some (example_metadata TASK_PARSER ''default'' ''v1''))
   \<and> files (version_manager example_unloaded_mutated) ''/data/model.bin'' = Some (Bytes ''abd'')
   \<and> sha256_hexdigest example_library ''abd'' \<noteq> replicate 64 (CHR ''a'')
   \<and> (\<exists>msg. integrity_result (validate_model_integrity example_library
          (version_manager example_unloaded_mutated) TASK_PARSER ''default'' ''v1'')
        = Inr (False, msg))
   \<and> (\<exists>M'. load_model example_library example_unloaded_mutated TASK_PARSER ''default'' (Some ''v1'')
             = Inr (False, M')
          \<and> loaded_models M' = loaded_models example_unloaded_mutated
          \<and> \<not> is_model_loaded M' TASK_PARSER ''default'' ''v1''
          \<and> reported_status (version_manager M') TASK_PARSER ''default'' ''v1'' = Some ERROR)"
proof -
  let ?M = "example_unloaded_mutated"
  let ?m = "example_metadata TASK_PARSER ''default'' ''v1''"
  have nl: "\<not> is_model_loaded ?M TASK_PARSER ''default'' ''v1''" by code_simp
  have g: "lookup_result (get_model_metadata (version_manager ?M) TASK_PARSER ''default'' ''v1'')
           = Inr (Some ?m)"
    by code_simp
  then obtain s1 where gm: "get_model_metadata (version_manager ?M) TASK_PARSER ''default'' ''v1''
                 = Inr (Some ?m, s1)"
    by (cases "get_model_metadata (version_manager ?M) TASK_PARSER ''default'' ''v1''")
       (auto simp: lookup_result_def)
  have f0: "files (version_manager ?M) ''/data/model.bin'' = Some (Bytes ''abd'')" by code_simp
  then have f: "files (version_manager ?M) (file_path ?m) = Some (Bytes ''abd'')"
    by (simp add: example_metadata_def)
  have h: "sha256_hexdigest example_library ''abd'' \<noteq> replicate 64 (CHR ''a'')" by code_simp
  then have mut: "int (length (content_bytes example_library (Bytes ''abd''))) \<noteq> file_size_bytes ?m
                  \<or> sha256_hexdigest example_library (content_bytes example_library (Bytes ''abd''))
                     \<noteq> file_hash ?m"
    by (simp add: example_metadata_def)
  show ?thesis
    using nl g f0 h mutated_artifact_fails_to_load [OF nl gm f mut] by simp
qed

text \<open>
  C2 as stated fails for an artifact that is already loaded when its file changes: the
  integrity check reports the hash mismatch, yet \<open>load_model\<close> returns true at once and the
  status stays \<open>AVAILABLE\<close>.
\<close>

theorem loaded_artifact_mutated_counterexample:
  "map_sum id (map_option file_hash)
     (lookup_result (get_model_metadata (version_manager example_loaded_mutated) TASK_PARSER
        ''default'' ''v1''))
     = Inr (Some (replicate 64 (CHR ''a'')))
   \<and> files (version_manager example_loaded_mutated) ''/data/model.bin'' = Some (Bytes ''abd'')
   \<and> sha256_hexdigest example_library ''abd'' \<noteq> replicate 64 (CHR ''a'')
   \<and> integrity_result (validate_model_integrity example_library
         (version_manager example_loaded_mutated) TASK_PARSER ''default'' ''v1'')
       = Inr (False, ''File hash mismatch: expected '' @ replicate 64 (CHR ''a'') @ '', got ''
                      @ replicate 64 (CHR ''0''))
   \<and> load_result (load_model example_library example_loaded_mutated TASK_PARSER ''default''
          (Some ''v1'')) = Inr True
   \<and> reported_status (version_manager (after_load (load_model example_library
          example_loaded_mutated TASK_PARSER ''default'' (Some ''v1'')) example_loaded_mutated))
        TASK_PARSER ''default'' ''v1'' = Some AVAILABLE"
  by code_simp

text \<open>
  C3. On the example artifact, whose file is intact and whose stored configuration has
  the temperature 5.0, the integrity check passes and \<open>get_model_config\<close> returns nothing;
  \<open>load_model\<close> returns false and creates no loaded entry, and the status that the Version
  Manager reports afterwards is \<open>LOADING\<close>, not \<open>ERROR\<close>.
\<close>

theorem config_failure_leaves_loading:
  "integrity_result (validate_model_integrity example_library example_bad_config TASK_PARSER
      ''default'' ''v1'') = Inr (True, ''Model integrity validated'')
   \<and> map_sum id fst (get_model_config example_library example_bad_config TASK_PARSER ''default''
         ''v1'') = Inr None
   \<and> load_result (load_model example_library (new_manager example_bad_config) TASK_PARSER
          ''default'' (Some ''v1'')) = Inr False
   \<and> loaded_models example_bad_config_attempt = []
   \<and> reported_status (version_manager example_bad_config_attempt) TASK_PARSER ''default'' ''v1''
       = Some LOADING"
  by code_simp

section \<open>Validation of the configuration document\<close>

lemma collect_errors_member:
  "collect_errors f xs = Inr errs \<Longrightarrow> x \<in> set xs \<Longrightarrow> \<exists>es. f x = Inr es \<and> set es \<subseteq> set errs"
proof (induction xs arbitrary: errs)
  case Nil
  then show ?case by simp
next
  case (Cons y ys)
  from Cons.prems(1) obtain es es' where y: "f y = Inr es"
    and r: "collect_errors f ys = Inr es'" and e: "errs = es @ es'"
    by (auto split: sum.splits)
  show ?case
  proof (cases "x = y")
    case True
    then show ?thesis using y e by auto
  next
    case False
    with Cons.prems(2) have "x \<in> set ys" by simp
    from Cons.IH [OF r this] e show ?thesis by auto
  qed
qed

lemma collect_errors_total:
  "(\<And>x. x \<in> set xs \<Longrightarrow> \<exists>es. f x = Inr es) \<Longrightarrow> \<exists>errs. collect_errors f xs = Inr errs"
proof (induction xs)
  case Nil
  then show ?case by simp
next
  case (Cons y ys)
  from Cons.prems [of y] obtain es where y: "f y = Inr es" by auto
  from Cons.IH Cons.prems obtain es' where r: "collect_errors f ys = Inr es'" by auto
  show ?case using y r by simp
qed

lemma map_of_Some_key: "map_of kvs k = Some x \<Longrightarrow> k \<in> set (map fst kvs)"
  by (metis map_of_eq_None_iff option.distinct(1) set_map)

lemma map_of_None_key: "map_of kvs k = None \<Longrightarrow> k \<notin> set (map fst kvs)"
  by (simp add: map_of_eq_None_iff)

lemma validate_config_no_definitions:
  assumes "''model_definitions'' \<notin> set (map fst doc)"
  shows "\<exists>errs. validate_config L (JObj doc) = Inr errs \<and> errs \<noteq> []"
  using assms by (simp add: validate_config_def)

lemma validate_version_def_object:
  "is_object version_def \<Longrightarrow> \<exists>es. validate_version_def t n (v, version_def) = Inr es"
  by (cases version_def) (simp_all add: is_object_def validate_version_def_def)

lemma validate_model_shape:
  assumes "model_def_shape model_def"
  shows "\<exists>es. validate_model L t (n, model_def) = Inr es"
proof -
  from assms obtain md where md: "model_def = JObj md"
    by (cases model_def) (simp_all add: model_def_shape_def)
  show ?thesis
  proof (cases "map_of md ''versions''")
    case None
    with assms md have "''versions'' \<notin> set (map fst md)" by (simp add: model_def_shape_def)
    then show ?thesis using md by (simp add: validate_model_def)
  next
    case (Some versions)
    with assms md obtain vs where vs: "versions = JObj vs"
      by (cases versions) (simp_all add: model_def_shape_def)
    from assms md Some vs have all: "list_all (\<lambda>(v, version_def). is_object version_def) vs"
      and dv: "(case map_of md ''default_version'' of None \<Rightarrow> True | Some (JStr x) \<Rightarrow> True
                | Some JNull \<Rightarrow> True | Some other \<Rightarrow> False)"
      by (simp_all add: model_def_shape_def)
    have "\<And>x. x \<in> set vs \<Longrightarrow> \<exists>es. validate_version_def t n x = Inr es"
    proof -
      fix x assume "x \<in> set vs"
      with all have "is_object (snd x)" by (auto simp: list_all_iff)
      from validate_version_def_object [OF this, of t n "fst x"] show "\<exists>es. validate_version_def t n x = Inr es"
        by simp
    qed
    from collect_errors_total [of vs "validate_version_def t n", OF this]
    obtain e3 where e3: "collect_errors (validate_version_def t n) vs = Inr e3" by blast
    have cd: "\<exists>e2. check_default_version L (dict_get md ''default_version'' JNull) (JObj vs) t n = Inr e2"
      using dv by (auto simp: check_default_version_def dict_get_def split: option.splits json.splits)
    then obtain e2 where e2: "check_default_version L (dict_get md ''default_version'' JNull) (JObj vs) t n = Inr e2"
      by blast
    have k: "''versions'' \<in> set (map fst md)" by (rule map_of_Some_key [OF Some])
    have g: "dict_get md ''versions'' JNull = JObj vs" using Some vs by (simp add: dict_get_def)
    show ?thesis using md k g e2 e3 by (simp add: validate_model_def)
  qed
qed

lemma validate_config_shape:
  assumes "config_shape config_data"
  shows "\<exists>errs. validate_config L config_data = Inr errs"
proof -
  from assms obtain doc where doc: "config_data = JObj doc"
    by (cases config_data) (simp_all add: config_shape_def)
  show ?thesis
  proof (cases "map_of doc ''model_definitions''")
    case None
    with assms doc have "''model_definitions'' \<notin> set (map fst doc)" by (simp add: config_shape_def)
    from validate_config_no_definitions [OF this] doc show ?thesis by blast
  next
    case (Some d)
    with assms doc obtain defs where defs: "d = JObj defs"
      by (cases d) (simp_all add: config_shape_def)
    from assms doc Some defs
    have all: "list_all (\<lambda>(t, models). case models of
                   JObj ms \<Rightarrow> list_all (\<lambda>(n, model_def). model_def_shape model_def) ms
                 | _ \<Rightarrow> False) defs"
      by (simp add: config_shape_def)
    have "\<And>x. x \<in> set defs \<Longrightarrow> \<exists>es. validate_model_type L x = Inr es"
    proof -
      fix x assume x: "x \<in> set defs"
      obtain t models where tm: "x = (t, models)" by (cases x)
      from all x tm obtain ms where ms: "models = JObj ms"
        and sh: "list_all (\<lambda>(n, model_def). model_def_shape model_def) ms"
        by (cases models) (auto simp: list_all_iff)
      have "\<And>y. y \<in> set ms \<Longrightarrow> \<exists>es. validate_model L t y = Inr es"
      proof -
        fix y assume "y \<in> set ms"
        with sh have "model_def_shape (snd y)" by (auto simp: list_all_iff)
        from validate_model_shape [OF this, of L t "fst y"]
        show "\<exists>es. validate_model L t y = Inr es" by simp
      qed
      from collect_errors_total [of ms "validate_model L t", OF this]
      obtain es where "collect_errors (validate_model L t) ms = Inr es" by blast
      then show "\<exists>es. validate_model_type L x = Inr es"
        using tm ms by (cases "ModelType_of t") (simp_all add: validate_model_type_def)
    qed
    from collect_errors_total [of defs "validate_model_type L", OF this]
    obtain errs where e: "collect_errors (validate_model_type L) defs = Inr errs" by blast
    have k: "''model_definitions'' \<in> set (map fst doc)" by (rule map_of_Some_key [OF Some])
    have ne: "doc \<noteq> []" using Some by auto
    show ?thesis using doc Some defs e k ne by (simp add: validate_config_def dict_get_def)
  qed
qed

lemma validate_config_default_version:
  assumes v: "validate_config L (JObj doc) = Inr errs"
    and d: "map_of doc ''model_definitions'' = Some (JObj defs)"
    and t: "(t, JObj ms) \<in> set defs" and mt: "ModelType_of t = Inr mt"
    and n: "(n, JObj md) \<in> set ms"
    and vs: "map_of md ''versions'' = Some (JObj vs)"
    and dv: "map_of md ''default_version'' = Some (JStr dv)"
    and ne: "dv \<noteq> []" and nk: "dv \<notin> set (map fst vs)"
  shows "default_version_message dv t n \<in> set errs"
proof -
  have k: "''model_definitions'' \<in> set (map fst doc)" by (rule map_of_Some_key [OF d])
  have "doc \<noteq> []" using d by auto
  with v d k have c: "collect_errors (validate_model_type L) defs = Inr errs"
    by (simp add: validate_config_def dict_get_def)
  from collect_errors_member [OF c t] obtain es1 where
    e1: "validate_model_type L (t, JObj ms) = Inr es1" and s1: "set es1 \<subseteq> set errs" by blast
  from e1 mt have c1: "collect_errors (validate_model L t) ms = Inr es1"
    by (simp add: validate_model_type_def)
  from collect_errors_member [OF c1 n] obtain es2 where
    e2: "validate_model L t (n, JObj md) = Inr es2" and s2: "set es2 \<subseteq> set es1" by blast
  have kv: "''versions'' \<in> set (map fst md)" by (rule map_of_Some_key [OF vs])
  have cd: "check_default_version L (dict_get md ''default_version'' JNull)
              (dict_get md ''versions'' JNull) t n = Inr [default_version_message dv t n]"
    using vs dv ne nk by (simp add: check_default_version_def dict_get_def)
  have "default_version_message dv t n \<in> set es2"
    using e2 kv cd vs
    by (auto simp: validate_model_def dict_get_def split: sum.splits)
  with s1 s2 show ?thesis by blast
qed

lemma default_version_message_mentions: "sublist dv (default_version_message dv t n)"
  unfolding default_version_message_def
  by (metis append.assoc sublist_appendI)

text \<open>
  C8, as amended. For a configuration document that is a JSON object without a
  \<open>model_definitions\<close> key, \<open>validate_config\<close> returns a list with at least one error. For a
  document in which every level is an object and every \<open>default_version\<close> present is a
  string or \<open>null\<close>, it returns a list of error strings and does not raise. Whenever it
  returns a list, then for every model under a recognised model type whose
  \<open>default_version\<close> is a non-empty string that is no key of the model's \<open>versions\<close> map, the
  list holds an error that contains that version string.
\<close>

theorem validate_config_findings:
  "(''model_definitions'' \<notin> set (map fst doc)
      \<longrightarrow> (\<exists>errs. validate_config L (JObj doc) = Inr errs \<and> errs \<noteq> []))
   \<and> (config_shape config_data \<longrightarrow> (\<exists>errs. validate_config L config_data = Inr errs))
   \<and> (validate_config L (JObj doc) = Inr errs
        \<and> map_of doc ''model_definitions'' = Some (JObj defs)
        \<and> (t, JObj ms) \<in> set defs \<and> ModelType_of t = Inr mt
        \<and> (n, JObj md) \<in> set ms
        \<and> map_of md ''versions'' = Some (JObj vs)
        \<and> map_of md ''default_version'' = Some (JStr dv)
        \<and> dv \<noteq> [] \<and> dv \<notin> set (map fst vs)
      \<longrightarrow> (\<exists>e \<in> set errs. e = default_version_message dv t n \<and> sublist dv e))"
  using validate_config_no_definitions [of doc L] validate_config_shape [of config_data L]
    validate_config_default_version [of L doc errs defs t ms mt n md vs dv]
    default_version_message_mentions [of dv t n]
  by blast

theorem validate_config_findings_witness:
  "validate_config example_library example_config_no_definitions
     = Inr [''Missing '' @ [CHR 0x27] @ ''model_definitions'' @ [CHR 0x27] @ '' section'']
   \<and> config_shape example_config_bad_default
   \<and> validate_config example_library example_config_bad_default
     = Inr [default_version_message ''v2'' ''task_parser'' ''m'']
   \<and> sublist ''v2'' (default_version_message ''v2'' ''task_parser'' ''m'')"
proof -
  let ?vs = "[(''v1'', JObj [(''model_source'', JStr ''mock''), (''memory_requirement_mb'', JInt 128)])]"
  let ?md = "[(''versions'', JObj ?vs), (''default_version'', JStr ''v2'')]"
  let ?ms = "[(''m'', JObj ?md)]"
  let ?defs = "[(''task_parser'', JObj ?ms)]"
  let ?doc = "[(''model_definitions'', JObj ?defs)]"
  have a: "validate_config example_library example_config_no_definitions
           = Inr [''Missing '' @ [CHR 0x27] @ ''model_definitions'' @ [CHR 0x27] @ '' section'']"
    by code_simp
  have b: "config_shape example_config_bad_default" by code_simp
  have c: "validate_config example_library example_config_bad_default
           = Inr [default_version_message ''v2'' ''task_parser'' ''m'']" by code_simp
  have d: "example_config_bad_default = JObj ?doc"
    by (simp add: example_config_bad_default_def example_model_def_def)
  have h: "validate_config example_library (JObj ?doc)
             = Inr [default_version_message ''v2'' ''task_parser'' ''m'']
           \<and> map_of ?doc ''model_definitions'' = Some (JObj ?defs)
           \<and> (''task_parser'', JObj ?ms) \<in> set ?defs \<and> ModelType_of ''task_parser'' = Inr TASK_PARSER
           \<and> (''m'', JObj ?md) \<in> set ?ms
           \<and> map_of ?md ''versions'' = Some (JObj ?vs)
           \<and> map_of ?md ''default_version'' = Some (JStr ''v2'')
           \<and> ''v2'' \<noteq> [] \<and> ''v2'' \<notin> set (map fst ?vs)"
    using c d by (simp add: ModelType_of_def)
  from validate_config_findings
         [of ?doc example_library example_config_bad_default
             "[default_version_message ''v2'' ''task_parser'' ''m'']" ?defs "''task_parser''" ?ms
             TASK_PARSER "''m''" ?md ?vs "''v2''"] h
  have "sublist ''v2'' (default_version_message ''v2'' ''task_parser'' ''m'')" by auto
  with a b c show ?thesis by blast
qed

text \<open>
  C8 as stated fails for a model that stands under a key that is no model type: the loop
  reports the key and moves on, so the only error returned does not mention the default
  version v2, which is no key of the model's versions.
\<close>

theorem validate_config_unknown_type_counterexample:
  "validate_config example_library example_config_unknown_type = Inr [''Invalid model type: vision'']
   \<and> \<not> sublist ''v2'' ''Invalid model type: vision''"
  by code_simp

section \<open>Reconciliation and the cache key\<close>

text \<open>
  C7. Reconciling a document that declares the mock version v1 of a model named \<open>default\<close>
  for the task parser and for the prioritizer, on a manager where nothing is registered:
  both keys are reported true, yet after the call the prioritizer's registry index is
  still empty and neither a placeholder file nor a metadata file exists for the
  prioritizer's version. The check for an existing registration finds the task parser's
  metadata, cached a moment before under \<open>default:v1\<close>.
\<close>

theorem reconcile_skips_same_name_of_other_type:
  "lookup_result (get_model_metadata example_vm PRIORITIZER ''default'' ''v1'') = Inr None
   \<and> load_registry example_vm PRIORITIZER = Inr []
   \<and> reconcile_results (initialize_models_from_config example_library example_config_two_types
         example_vm)
       = Inr [(''task_parser:default:v1'', True), (''prioritizer:default:v1'', True)]
   \<and> map_sum id (map fst) (load_registry example_reconciled TASK_PARSER) = Inr [''default:v1'']
   \<and> load_registry example_reconciled PRIORITIZER = Inr []
   \<and> files example_reconciled ''models/prioritizer/default/v1/model.json'' = None
   \<and> files example_reconciled ''models/prioritizer/default/v1/metadata.json'' = None
   \<and> map_sum id (map_option model_type)
         (lookup_result (get_model_metadata example_reconciled PRIORITIZER ''default'' ''v1''))
       = Inr (Some TASK_PARSER)"
  by code_simp

section \<open>The processing entry points and exceptions\<close>














end
